theory Spec2Isabelle
  imports Complex_Main "HOL-Library.Sublist"
begin

section \<open>Application errors (utils/errors.js)\<close>

text \<open>
  Every error of the application is an \<open>AppError\<close>: a message, a fixed code string, an
  HTTP status and a details object. The subclasses only fix the code and the status.
  The details object is one of the shapes the source builds.
\<close>

record invalid_ref =
  ref_url :: string
  reason :: string

datatype details =
    NoDetails
  | SchemaErrors
  | StatusDetails nat
  | OriginalError string
  | ConfidenceDetails real "invalid_ref list"

record app_error =
  message :: string
  code :: string
  statusCode :: nat
  details :: details

definition AppError :: "string \<Rightarrow> string \<Rightarrow> nat \<Rightarrow> details \<Rightarrow> app_error" where
  "AppError m c s d = \<lparr>message = m, code = c, statusCode = s, details = d\<rparr>"

definition ValidationError :: "string \<Rightarrow> details \<Rightarrow> app_error" where
  "ValidationError m d = AppError m ''VALIDATION_ERROR'' 400 d"


definition InsufficientDataError :: "string \<Rightarrow> details \<Rightarrow> app_error" where
  "InsufficientDataError m d = AppError m ''INSUFFICIENT_DATA'' 424 d"

definition OpenAIError :: "string \<Rightarrow> details \<Rightarrow> app_error" where
  "OpenAIError m d = AppError m ''OPENAI_ERROR'' 503 d"

definition OpenAITimeoutError :: "string \<Rightarrow> details \<Rightarrow> app_error" where
  "OpenAITimeoutError m d = AppError m ''OPENAI_TIMEOUT'' 504 d"

definition UpstreamArtifactMissingError :: "string \<Rightarrow> details \<Rightarrow> app_error" where
  "UpstreamArtifactMissingError m d = AppError m ''UPSTREAM_ARTIFACT_MISSING'' 424 d"

section \<open>Thrown values and the global error handler (middleware/error-handler.js)\<close>

text \<open>
  What a handler throws is an \<open>AppError\<close>, some other exception (its message), or, in
  \<open>retry\<close> with no attempt made, the value \<open>undefined\<close>. The error handler answers an
  \<open>AppError\<close> with its own status and code and anything else with 500
  \<open>INTERNAL_ERROR\<close> (an exception without \<open>statusCode\<close>).
\<close>

datatype thrown = App app_error | Other string | Undefined

definition errorHandler :: "thrown \<Rightarrow> nat \<times> string" where
  "errorHandler t = (case t of App e \<Rightarrow> (statusCode e, code e)
                              | _ \<Rightarrow> (500, ''INTERNAL_ERROR''))"

section \<open>Helpers (utils/helpers.js)\<close>

text \<open>
  The helpers parse URLs with the platform's URL class, which is not code of this
  repository. A parsed URL is the record of its components; \<open>query\<close> and \<open>fragment\<close> are
  null (\<open>None\<close>) or a string. The parser itself is a parameter \<open>parse_url\<close> of every
  function that calls \<open>new URL\<close>: \<open>Inl\<close> of the message when it throws.
  \<open>href\<close> is the serialisation of a URL that has a host, which \<open>toString\<close> returns.
\<close>

record url =
  scheme :: string
  username :: string
  password :: string
  hostname :: string
  port :: "string option"
  pathname :: string
  query :: "string option"
  fragment :: "string option"

definition protocol :: "url \<Rightarrow> string" where
  "protocol u = scheme u @ '':''"

definition href :: "url \<Rightarrow> string" where
  "href u = scheme u @ ''://''
     @ (if username u \<noteq> [] \<or> password u \<noteq> []
        then username u @ (if password u \<noteq> [] then '':'' @ password u else []) @ ''@''
        else [])
     @ hostname u
     @ (case port u of None \<Rightarrow> [] | Some p \<Rightarrow> '':'' @ p)
     @ pathname u
     @ (case query u of None \<Rightarrow> [] | Some q \<Rightarrow> ''?'' @ q)
     @ (case fragment u of None \<Rightarrow> [] | Some f \<Rightarrow> ''#'' @ f)"

text \<open>
  \<open>sanitizeUrl\<close>: the protocol check throws inside the try block, so both failures leave
  through the catch block as a plain \<open>Error\<close> whose message starts with \<open>Invalid URL: \<close>.
  Assigning the empty string to \<open>hash\<close> sets the fragment to null.
\<close>

definition sanitizeUrl :: "(string \<Rightarrow> string + url) \<Rightarrow> string \<Rightarrow> thrown + string" where
  "sanitizeUrl parse_url u =
     (case parse_url u of
        Inl msg \<Rightarrow> Inl (Other (''Invalid URL: '' @ msg))
      | Inr parsed \<Rightarrow>
          if protocol parsed \<notin> set [''http:'', ''https:'']
          then Inl (Other (''Invalid URL: '' @ ''Only HTTP and HTTPS protocols are allowed''))
          else Inr (href (parsed\<lparr>fragment := None\<rparr>)))"

text \<open>
  \<open>extractDomain\<close> strips a leading \<open>www.\<close> from the host name and returns null when
  the parser throws.
\<close>

definition strip_www :: "string \<Rightarrow> string" where
  "strip_www h = (if take 4 h = ''www.'' then drop 4 h else h)"

definition extractDomain :: "(string \<Rightarrow> string + url) \<Rightarrow> string \<Rightarrow> string option" where
  "extractDomain parse_url u =
     (case parse_url u of Inl msg \<Rightarrow> None | Inr parsed \<Rightarrow> Some (strip_www (hostname parsed)))"

text \<open>A parser that knows a few URLs, used to run the helpers on concrete inputs.\<close>

definition https_url :: "string \<Rightarrow> string \<Rightarrow> string option \<Rightarrow> url" where
  "https_url h p f = \<lparr>scheme = ''https'', username = [], password = [], hostname = h,
     port = None, pathname = p, query = None, fragment = f\<rparr>"

definition parse_example :: "string \<Rightarrow> string + url" where
  "parse_example s =
     (if s = ''https://example.com/about#team''
      then Inr (https_url ''example.com'' ''/about'' (Some ''team''))
      else if s = ''https://example.com/about''
      then Inr (https_url ''example.com'' ''/about'' None)
      else if s = ''https://www.example.com/''
      then Inr (https_url ''www.example.com'' ''/'' None)
      else if s = ''https://evil.io/x''
      then Inr (https_url ''evil.io'' ''/x'' None)
      else if s = ''ftp://example.com/file''
      then Inr ((https_url ''example.com'' ''/file'' None)\<lparr>scheme := ''ftp''\<rparr>)
      else Inl ''Invalid URL'')"

section \<open>Evidence validation (services/evidence.service.js)\<close>

text \<open>
  A HEAD request either throws (\<open>Inl\<close> of the exception's message) or yields a response
  with its \<open>ok\<close> flag, its status and the final URL after redirects.
\<close>

record response =
  ok :: bool
  status :: nat
  final_url :: string

record validation =
  is_valid :: bool
  checked_url :: string
  why :: "string option"

record evidence_check =
  valid :: "string list"
  invalid :: "invalid_ref list"
  confidence_penalty :: real

text \<open>Decimal rendering of a status code, for the template \<open>HTTP ${response.status}\<close>.\<close>

fun decimal :: "nat \<Rightarrow> string" where
  "decimal n = (if n < 10 then [char_of (48 + n)]
                else decimal (n div 10) @ [char_of (48 + n mod 10)])"

text \<open>
  \<open>allowedDomains.includes(domain)\<close>: the allow-list holds what \<open>extractDomain\<close>
  returned for the input URL, which may be null (\<open>None\<close>).
\<close>

definition validateUrl ::
  "(string \<Rightarrow> string + url) \<Rightarrow> (string \<Rightarrow> string + response) \<Rightarrow>
   string \<Rightarrow> string option list \<Rightarrow> validation" where
  "validateUrl parse_url fetch u allowedDomains =
     (let domain = extractDomain parse_url u in
      if domain \<notin> set allowedDomains
      then \<lparr>is_valid = False, checked_url = u, why = Some ''Domain not in allowed list''\<rparr>
      else (case fetch u of
          Inl msg \<Rightarrow> \<lparr>is_valid = False, checked_url = u, why = Some msg\<rparr>
        | Inr resp \<Rightarrow>
            (let finalDomain = extractDomain parse_url (final_url resp) in
             if finalDomain \<notin> set allowedDomains
             then \<lparr>is_valid = False, checked_url = u,
                    why = Some ''Redirected to different domain''\<rparr>
             else if \<not> ok resp
             then \<lparr>is_valid = False, checked_url = u,
                    why = Some (''HTTP '' @ decimal (status resp))\<rparr>
             else \<lparr>is_valid = True, checked_url = u, why = None\<rparr>)))"

definition calculateConfidencePenalty :: "nat \<Rightarrow> nat \<Rightarrow> real" where
  "calculateConfidencePenalty invalidCount totalCount =
     (if totalCount = 0 then 0
      else let invalidRatio = real invalidCount / real totalCount
           in min (invalidRatio * 0.3) 0.3)"

text \<open>
  \<open>checkEvidenceRefs\<close> validates every URL (\<open>Promise.all\<close> keeps the order of the
  input), splits the results and computes the penalty from the two lengths.
\<close>

definition checkEvidenceRefs ::
  "(string \<Rightarrow> string + url) \<Rightarrow> (string \<Rightarrow> string + response) \<Rightarrow>
   string list \<Rightarrow> string option list \<Rightarrow> evidence_check" where
  "checkEvidenceRefs parse_url fetch urls allowedDomains =
     (if length urls = 0
      then \<lparr>valid = [], invalid = [], confidence_penalty = 0\<rparr>
      else let results = map (\<lambda>u. validateUrl parse_url fetch u allowedDomains) urls;
               valid_urls = map checked_url (filter is_valid results);
               invalid_refs = map (\<lambda>r. \<lparr>ref_url = checked_url r,
                                           reason = (case why r of Some m \<Rightarrow> m | None \<Rightarrow> [])\<rparr>)
                                (filter (\<lambda>r. \<not> is_valid r) results);
               confidencePenalty = calculateConfidencePenalty (length invalid_refs) (length urls)
           in \<lparr>valid = valid_urls, invalid = invalid_refs,
                confidence_penalty = confidencePenalty\<rparr>)"

text \<open>A HEAD request that always succeeds without redirect, for concrete runs.\<close>

definition fetch_ok :: "string \<Rightarrow> string + response" where
  "fetch_ok u = Inr \<lparr>ok = True, status = 200, final_url = u\<rparr>"

section \<open>Scraped pages and near-duplicate collapse (services/scraper.service.js)\<close>

text \<open>
  Strings are lists of 8-bit characters, read as the code points U+0000 to U+00FF;
  text outside that range is outside this model. On that range \<open>toLowerCase\<close> maps
  A-Z and the capital letters U+00C0 to U+00DE (except the multiplication sign U+00D7)
  to the letter 32 positions later, and the white-space class of the regular expression
  holds TAB, LF, VT, FF, CR, SPACE and the no-break space U+00A0.
\<close>

record page =
  page_url :: string
  title :: string
  content :: string
  scrapedAt :: int

definition lower_char :: "char \<Rightarrow> char" where
  "lower_char c = (let n = (of_char c :: nat) in
     if (65 \<le> n \<and> n \<le> 90) \<or> (192 \<le> n \<and> n \<le> 222 \<and> n \<noteq> 215)
     then char_of (n + 32) else c)"

definition toLowerCase :: "string \<Rightarrow> string" where
  "toLowerCase s = map lower_char s"

definition isSpace :: "char \<Rightarrow> bool" where
  "isSpace c = (let n = (of_char c :: nat) in (9 \<le> n \<and> n \<le> 13) \<or> n = 32 \<or> n = 160)"

text \<open>
  Splitting at white space, as \<^verbatim>\<open>str.split(/\s+/)\<close> does: the pieces between maximal
  runs of white space. A run at the start or at the end leaves an empty piece there,
  and the empty string gives one empty piece. The flag says that the previous character
  was white space; \<open>cur\<close> is the piece being read, reversed.
\<close>

fun split_from :: "bool \<Rightarrow> string \<Rightarrow> string \<Rightarrow> string list" where
  "split_from inSpace cur [] = [rev cur]"
| "split_from inSpace cur (c # cs) =
     (if isSpace c
      then (if inSpace then split_from True cur cs else rev cur # split_from True [] cs)
      else split_from False (c # cur) cs)"

definition split_ws :: "string \<Rightarrow> string list" where
  "split_ws s = split_from False [] s"

text \<open>The set built from the lower-cased content's pieces.\<close>

definition words_of :: "page \<Rightarrow> string set" where
  "words_of p = set (split_ws (toLowerCase (content p)))"

text \<open>\<open>jaccardSimilarity\<close> (utils/helpers.js): sizes of intersection and union, divided.\<close>

definition jaccardSimilarity :: "'a set \<Rightarrow> 'a set \<Rightarrow> real" where
  "jaccardSimilarity set1 set2 =
     (let intersection = {x \<in> set1. x \<in> set2}; union = set1 \<union> set2
      in real (card intersection) / real (card union))"

text \<open>
  \<open>deduplicateContent\<close>: the inner loop looks for a kept page more than 0.8 similar and
  stops at the first; the outer loop appends the pages that have none.
\<close>

fun isDuplicate :: "string set \<Rightarrow> page list \<Rightarrow> bool" where
  "isDuplicate currentWords [] = False"
| "isDuplicate currentWords (uniquePage # rest) =
     (if jaccardSimilarity currentWords (words_of uniquePage) > 0.8 then True
      else isDuplicate currentWords rest)"

fun dedup_loop :: "page list \<Rightarrow> page list \<Rightarrow> page list" where
  "dedup_loop unique [] = unique"
| "dedup_loop unique (currentPage # rest) =
     dedup_loop (if isDuplicate (words_of currentPage) unique then unique
                 else unique @ [currentPage]) rest"

definition deduplicateContent :: "page list \<Rightarrow> page list" where
  "deduplicateContent pages = (case pages of [] \<Rightarrow> [] | first # rest \<Rightarrow> dedup_loop [first] rest)"

text \<open>Two pages are dissimilar when their similarity does not exceed the threshold.\<close>

definition dissimilar :: "page \<Rightarrow> page \<Rightarrow> bool" where
  "dissimilar p q \<longleftrightarrow> jaccardSimilarity (words_of p) (words_of q) \<le> 0.8"

text \<open>Pages used to run the collapse on concrete inputs.\<close>

definition page_of :: "string \<Rightarrow> page" where
  "page_of txt = \<lparr>page_url = ''https://example.com/'', title = ''t'', content = txt, scrapedAt = 0\<rparr>"

section \<open>Two-tier cache (config/redis.js, db/models/cache.model.js, services/cache.service.js)\<close>

text \<open>
  The fast tier maps a key to the stored result and the instant it expires (none
  without a TTL); the durable tier is the \<open>scraping_cache\<close> relation. Instants are
  milliseconds, TTLs seconds. A stored result is read back as it was written (the JSON
  round trip is the identity on results). What can go wrong outside the program is a
  fault of the call: the fast-tier read (the client rejects, or the stored string does
  not parse), the fast-tier write, and the queries of the durable tier.
\<close>

record scrape_metadata =
  meta_url :: string
  meta_domain :: "string option"
  totalCandidates :: nat
  validUrls :: nat
  scrapedPages :: nat
  uniquePages :: nat
  durationMs :: int
  meta_scrapedAt :: int

record scrape_result =
  pages :: "page list"
  metadata :: scrape_metadata

record cache_row =
  url_hash :: string
  cached_url :: string
  cache_content :: scrape_result
  scraped_at :: int
  row_expires_at :: int
  page_count :: nat
  row_total_tokens :: nat
  access_count :: nat
  last_accessed_at :: int

record cache_state =
  fast_tier :: "string \<rightharpoonup> scrape_result \<times> int option"
  durable_tier :: "cache_row list"

record cache_faults =
  fast_get_fails :: bool
  fast_set_fails :: bool
  durable_get_fails :: bool
  durable_set_fails :: bool

text \<open>
  \<open>redis.get\<close> catches every failure of the read and returns null,
  "to allow fallback to database".
\<close>

definition redis_get :: "cache_faults \<Rightarrow> int \<Rightarrow> cache_state \<Rightarrow> string \<Rightarrow> scrape_result option" where
  "redis_get faults now st key =
     (if fast_get_fails faults then None
      else (case fast_tier st key of
              None \<Rightarrow> None
            | Some (v, expiry) \<Rightarrow>
                (case expiry of None \<Rightarrow> Some v
                 | Some t \<Rightarrow> if now < t then Some v else None)))"

text \<open>\<open>redis.set\<close> logs a failure and throws it again; a TTL of 0 stores without expiry.\<close>

definition redis_set ::
  "cache_faults \<Rightarrow> int \<Rightarrow> cache_state \<Rightarrow> string \<Rightarrow> scrape_result \<Rightarrow> nat \<Rightarrow> thrown + cache_state" where
  "redis_set faults now st key v ttl =
     (if fast_set_fails faults then Inl (Other ''Redis SET failed'')
      else Inr (st\<lparr>fast_tier := (fast_tier st)
                  (key \<mapsto> (v, if ttl \<noteq> 0 then Some (now + int ttl * 1000) else None))\<rparr>))"

text \<open>
  \<open>getCachedScraping\<close>: the unexpired row of the URL's hash; a hit bumps the row's
  access count. \<open>generateUrlHash\<close> is SHA-256, a parameter \<open>hash\<close> here.
\<close>

definition getCachedScraping ::
  "cache_faults \<Rightarrow> (string \<Rightarrow> string) \<Rightarrow> int \<Rightarrow> cache_state \<Rightarrow> string
     \<Rightarrow> (thrown + scrape_result option) \<times> cache_state" where
  "getCachedScraping faults hash now st u =
     (if durable_get_fails faults then (Inl (Other ''database query failed''), st)
      else (case find (\<lambda>r. url_hash r = hash u \<and> row_expires_at r > now) (durable_tier st) of
              None \<Rightarrow> (Inr None, st)
            | Some row \<Rightarrow>
                (Inr (Some (cache_content row)),
                 st\<lparr>durable_tier :=
                      map (\<lambda>r. if url_hash r = hash u
                                then r\<lparr>access_count := access_count r + 1, last_accessed_at := now\<rparr>
                                else r) (durable_tier st)\<rparr>)))"

text \<open>\<open>setCachedScraping\<close>: INSERT, or on a conflict of the hash UPDATE of the row.\<close>

definition setCachedScraping ::
  "cache_faults \<Rightarrow> (string \<Rightarrow> string) \<Rightarrow> int \<Rightarrow> cache_state \<Rightarrow> string \<Rightarrow> scrape_result \<Rightarrow> nat
     \<Rightarrow> thrown + cache_state" where
  "setCachedScraping faults hash now st u v ttl =
     (if durable_set_fails faults then Inl (Other ''database query failed'')
      else let pageCount = length (pages v); totalTokens = 0;
               expiry = now + int ttl * 1000 in
           if hash u \<in> set (map url_hash (durable_tier st))
           then Inr (st\<lparr>durable_tier :=
                  map (\<lambda>r. if url_hash r = hash u
                            then r\<lparr>cache_content := v, scraped_at := now, row_expires_at := expiry,
                                   page_count := pageCount, row_total_tokens := totalTokens,
                                   access_count := access_count r + 1\<rparr>
                            else r) (durable_tier st)\<rparr>)
           else Inr (st\<lparr>durable_tier := durable_tier st @
                  [\<lparr>url_hash = hash u, cached_url = u, cache_content = v, scraped_at = now,
                    row_expires_at = expiry, page_count = pageCount,
                    row_total_tokens = totalTokens, access_count = 1,
                    last_accessed_at = now\<rparr>]\<rparr>))"

text \<open>
  \<open>CacheService.getScrapedContent\<close>: first the try block, which may throw, then the
  method, whose catch block turns whatever was thrown into null.
\<close>

definition getScrapedContent_try ::
  "cache_faults \<Rightarrow> (string \<Rightarrow> string) \<Rightarrow> nat \<Rightarrow> int \<Rightarrow> cache_state \<Rightarrow> string
     \<Rightarrow> (thrown + scrape_result option) \<times> cache_state" where
  "getScrapedContent_try faults hash scrapingTTL now st u =
     (let cacheKey = ''scrape:'' @ hash u in
      case redis_get faults now st cacheKey of
        Some redisData \<Rightarrow> (Inr (Some redisData), st)
      | None \<Rightarrow>
          (case getCachedScraping faults hash now st u of
             (Inl e, st1) \<Rightarrow> (Inl e, st1)
           | (Inr None, st1) \<Rightarrow> (Inr None, st1)
           | (Inr (Some dbData), st1) \<Rightarrow>
               (case redis_set faults now st1 cacheKey dbData scrapingTTL of
                  Inl e \<Rightarrow> (Inl e, st1)
                | Inr st2 \<Rightarrow> (Inr (Some dbData), st2))))"

definition getScrapedContent ::
  "cache_faults \<Rightarrow> (string \<Rightarrow> string) \<Rightarrow> nat \<Rightarrow> int \<Rightarrow> cache_state \<Rightarrow> string
     \<Rightarrow> scrape_result option \<times> cache_state" where
  "getScrapedContent faults hash scrapingTTL now st u =
     (case getScrapedContent_try faults hash scrapingTTL now st u of
        (Inl error, st1) \<Rightarrow> (None, st1)
      | (Inr found, st1) \<Rightarrow> (found, st1))"

text \<open>
  \<open>cacheScrapedContent\<close>: both writes are started; a failure of either is logged and
  not thrown. The TTL argument defaults to the configured one.
\<close>

definition cacheScrapedContent ::
  "cache_faults \<Rightarrow> (string \<Rightarrow> string) \<Rightarrow> nat \<Rightarrow> int \<Rightarrow> cache_state \<Rightarrow> string \<Rightarrow> scrape_result
     \<Rightarrow> nat option \<Rightarrow> cache_state" where
  "cacheScrapedContent faults hash scrapingTTL now st u v ttl =
     (let actualTtl = (case ttl of None \<Rightarrow> scrapingTTL | Some t \<Rightarrow> if t = 0 then scrapingTTL else t);
          cacheKey = ''scrape:'' @ hash u;
          st1 = (case redis_set faults now st cacheKey v actualTtl of Inl e \<Rightarrow> st | Inr s \<Rightarrow> s);
          st2 = (case setCachedScraping faults hash now st1 u v actualTtl of Inl e \<Rightarrow> st1 | Inr s \<Rightarrow> s)
      in st2)"

section \<open>Scrape pipeline (services/scraper.service.js)\<close>

text \<open>
  What the pipeline needs from outside: the URL parser, the hash, HEAD requests, the
  browser (\<open>load_page\<close>: the title and the body text of a page, or any exception of the
  pool, the navigation or the evaluation), the clock, the cache's faults and the two
  configured numbers. The browser pool's leases are not part of this model.
\<close>

record scrape_env =
  parse_of :: "string \<Rightarrow> string + url"
  hash_of :: "string \<Rightarrow> string"
  head_of :: "string \<Rightarrow> string + response"
  load_page :: "string \<Rightarrow> string + string \<times> string"
  clock :: int
  faults_of :: cache_faults
  scrapingTTL :: nat
  concurrency :: nat

definition commonPaths :: "string list" where
  "commonPaths = [''/'', ''/about'', ''/about-us'', ''/company'', ''/our-story'', ''/products'',
     ''/services'', ''/solutions'', ''/features'', ''/how-it-works'', ''/mission'', ''/vision'',
     ''/values'', ''/team'', ''/careers'', ''/blog'', ''/news'', ''/press'', ''/contact'',
     ''/faq'', ''/help'']"

text \<open>The elements of a list in the order of their first occurrence, as a Set keeps them.\<close>

definition set_order :: "'a list \<Rightarrow> 'a list" where
  "set_order xs = rev (remdups (rev xs))"

definition discoverPages :: "(string \<Rightarrow> string + url) \<Rightarrow> string \<Rightarrow> string list" where
  "discoverPages parse_url baseUrl =
     (let domain = extractDomain parse_url baseUrl;
          proto = (if take 5 baseUrl = ''https'' then ''https'' else ''http'');
          baseWithoutProtocol = proto @ ''://'' @ (case domain of None \<Rightarrow> ''null'' | Some d \<Rightarrow> d);
          urls = map (\<lambda>path. baseWithoutProtocol @ path) commonPaths
      in set_order urls)"

text \<open>A probe that throws, or answers outside 2xx, gives null; the nulls are dropped.\<close>

definition validateUrls :: "(string \<Rightarrow> string + response) \<Rightarrow> string list \<Rightarrow> string list" where
  "validateUrls head urls =
     List.map_filter (\<lambda>u. case head u of Inl e \<Rightarrow> None
                                        | Inr resp \<Rightarrow> if ok resp then Some u else None) urls"

text \<open>\<open>String.prototype.trim\<close>\<close>

definition trim :: "string \<Rightarrow> string" where
  "trim s = rev (dropWhile isSpace (rev (dropWhile isSpace s)))"

text \<open>\<open>scrapePage\<close> returns null on every exception.\<close>

definition scrapePage :: "scrape_env \<Rightarrow> string \<Rightarrow> page option" where
  "scrapePage env u =
     (case load_page env u of
        Inl e \<Rightarrow> None
      | Inr (pageTitle, textContent) \<Rightarrow>
          Some \<lparr>page_url = u, title = pageTitle, content = trim textContent,
                scrapedAt = clock env\<rparr>)"

text \<open>
  \<open>scrapePages\<close>: the loop \<open>for (i = 0; i < urls.length; i += concurrency)\<close> over
  batches \<open>urls.slice(i, i + concurrency)\<close>. The step is the configured
  \<open>SCRAPE_CONCURRENCY\<close> (5 when unset or 0), a natural number here; negative settings
  are outside the model. The loop itself does not end with a step of 0, so it is a
  partial function: \<open>None\<close> is "does not return".
\<close>

partial_function (option) scrapePages_loop ::
  "(string \<Rightarrow> page option) \<Rightarrow> nat \<Rightarrow> string list \<Rightarrow> nat \<Rightarrow> page list \<Rightarrow> page list option" where
  "scrapePages_loop fetch_page step urls i acc =
     (if i < length urls
      then scrapePages_loop fetch_page step urls (i + step)
             (acc @ List.map_filter fetch_page (take step (drop i urls)))
      else Some acc)"

declare scrapePages_loop.simps [code]

definition scrapePages :: "scrape_env \<Rightarrow> string list \<Rightarrow> page list option" where
  "scrapePages env urls = scrapePages_loop (scrapePage env) (concurrency env) urls 0 []"

text \<open>
  \<open>scrapeWebsite\<close>: \<open>fresh_scrape\<close> is its try block, entered after a cache miss. The
  whole call takes one instant of the clock, so the duration it reports is 0.
\<close>

definition fresh_scrape ::
  "scrape_env \<Rightarrow> cache_state \<Rightarrow> string \<Rightarrow> ((thrown + scrape_result) \<times> cache_state) option" where
  "fresh_scrape env st sanitized =
     (let domain = extractDomain (parse_of env) sanitized;
          candidateUrls = discoverPages (parse_of env) sanitized;
          valid_urls = validateUrls (head_of env) candidateUrls
      in if length valid_urls = 0
         then Some (Inl (App (InsufficientDataError ''No accessible pages found'' NoDetails)), st)
         else (case scrapePages env valid_urls of
                 None \<Rightarrow> None
               | Some fetched \<Rightarrow>
                   let unique = deduplicateContent fetched;
                       result = \<lparr>pages = unique,
                                 metadata = \<lparr>meta_url = sanitized, meta_domain = domain,
                                   totalCandidates = length candidateUrls,
                                   validUrls = length valid_urls,
                                   scrapedPages = length fetched,
                                   uniquePages = length unique,
                                   durationMs = 0, meta_scrapedAt = clock env\<rparr>\<rparr>
                   in Some (Inr result,
                            cacheScrapedContent (faults_of env) (hash_of env) (scrapingTTL env)
                              (clock env) st sanitized result None)))"

definition scrapeWebsite ::
  "scrape_env \<Rightarrow> cache_state \<Rightarrow> string \<Rightarrow> ((thrown + scrape_result) \<times> cache_state) option" where
  "scrapeWebsite env st u =
     (case sanitizeUrl (parse_of env) u of
        Inl e \<Rightarrow> Some (Inl e, st)
      | Inr sanitized \<Rightarrow>
          (case getScrapedContent (faults_of env) (hash_of env) (scrapingTTL env) (clock env) st sanitized of
             (Some cached, st1) \<Rightarrow> Some (Inr cached, st1)
           | (None, st1) \<Rightarrow> fresh_scrape env st1 sanitized))"

text \<open>Environments and cache states used to run the cache and the pipeline.\<close>

definition no_faults :: cache_faults where
  "no_faults = \<lparr>fast_get_fails = False, fast_set_fails = False,
                durable_get_fails = False, durable_set_fails = False\<rparr>"

definition fast_read_fails :: cache_faults where
  "fast_read_fails = \<lparr>fast_get_fails = True, fast_set_fails = False,
                      durable_get_fails = False, durable_set_fails = False\<rparr>"

definition empty_cache :: cache_state where
  "empty_cache = \<lparr>fast_tier = Map.empty, durable_tier = []\<rparr>"

definition about_result :: scrape_result where
  "about_result = \<lparr>pages = [page_of ''about us''],
     metadata = \<lparr>meta_url = ''https://example.com/about'', meta_domain = Some ''example.com'',
       totalCandidates = 21, validUrls = 1, scrapedPages = 1, uniquePages = 1,
       durationMs = 0, meta_scrapedAt = 0\<rparr>\<rparr>"

definition durable_only :: cache_state where
  "durable_only = \<lparr>fast_tier = Map.empty,
     durable_tier = [\<lparr>url_hash = ''h:https://example.com/about'',
       cached_url = ''https://example.com/about'', cache_content = about_result,
       scraped_at = 0, row_expires_at = 86400000, page_count = 1, row_total_tokens = 0,
       access_count = 1, last_accessed_at = 0\<rparr>]\<rparr>"

definition hash_example :: "string \<Rightarrow> string" where
  "hash_example u = ''h:'' @ u"

definition load_fails :: "string \<Rightarrow> string + string \<times> string" where
  "load_fails u = Inl ''page.goto: Timeout 15000ms exceeded''"

definition env_all_fetches_fail :: scrape_env where
  "env_all_fetches_fail = \<lparr>parse_of = parse_example, hash_of = hash_example, head_of = fetch_ok,
     load_page = load_fails, clock = 1000, faults_of = no_faults, scrapingTTL = 86400,
     concurrency = 5\<rparr>"

text \<open>
  An environment in which two probes succeed, one probe throws, the others answer 404,
  and one of the two probed pages loads; and one in which no probe succeeds.
\<close>

definition head_some :: "string \<Rightarrow> string + response" where
  "head_some u =
     (if u = ''https://example.com/'' \<or> u = ''https://example.com/about''
      then Inr \<lparr>ok = True, status = 200, final_url = u\<rparr>
      else if u = ''https://example.com/blog'' then Inl ''fetch failed''
      else Inr \<lparr>ok = False, status = 404, final_url = u\<rparr>)"

definition load_some :: "string \<Rightarrow> string + string \<times> string" where
  "load_some u =
     (if u = ''https://example.com/about'' then Inr (''About'', '' About us '')
      else Inl ''page.goto: Timeout 15000ms exceeded'')"

definition env_some_failures :: scrape_env where
  "env_some_failures = \<lparr>parse_of = parse_example, hash_of = hash_example, head_of = head_some,
     load_page = load_some, clock = 1000, faults_of = no_faults, scrapingTTL = 86400,
     concurrency = 5\<rparr>"

definition head_none :: "string \<Rightarrow> string + response" where
  "head_none u = Inl ''fetch failed''"

definition env_no_probe :: scrape_env where
  "env_no_probe = \<lparr>parse_of = parse_example, hash_of = hash_example, head_of = head_none,
     load_page = load_some, clock = 1000, faults_of = no_faults, scrapingTTL = 86400,
     concurrency = 5\<rparr>"

section \<open>LLM gateway (services/openai.service.js) and \<open>retry\<close> (utils/helpers.js)\<close>

text \<open>
  One outbound call of the provider's client either rejects with an error (its \<open>code\<close>,
  \<open>message\<close> and HTTP \<open>status\<close>, the last two as the client library sets them) or resolves
  with a completion. Metrics and log lines are not part of the model.
\<close>

record provider_error =
  err_code :: "string option"
  err_message :: string
  err_status :: "nat option"

record completion =
  total_tokens :: nat
  message_content :: string

type_synonym provider_outcome = "provider_error + completion"

text \<open>\<open>String.prototype.includes\<close>\<close>

fun includes_str :: "string \<Rightarrow> string \<Rightarrow> bool" where
  "includes_str [] sub = (sub = [])"
| "includes_str (c # cs) sub = (take (length sub) (c # cs) = sub \<or> includes_str cs sub)"

text \<open>
  The catch block of \<open>callOpenAI\<close>: whatever was thrown inside the try block leaves as an
  \<open>OpenAITimeoutError\<close> (504) or an \<open>OpenAIError\<close> (503); the provider's status is kept
  in the details only.
\<close>

definition classify_failure :: "provider_error \<Rightarrow> thrown" where
  "classify_failure error =
     (if err_code error = Some ''ECONNABORTED'' \<or> includes_str (err_message error) ''timeout''
      then App (OpenAITimeoutError ''OpenAI request timeout'' NoDetails)
      else if err_status error = Some 401
      then App (OpenAIError ''Invalid OpenAI API key'' (StatusDetails 401))
      else if err_status error = Some 429
      then App (OpenAIError ''OpenAI rate limit exceeded'' (StatusDetails 429))
      else App (OpenAIError (err_message error) (OriginalError (err_message error))))"

text \<open>
  \<open>callOpenAI\<close> on the outcome of its one outbound call. \<open>JSON.parse\<close> is the platform's
  (\<open>Inl\<close> of the message of its SyntaxError); a parse failure is thrown inside the try
  block and classified like a provider failure.
\<close>

definition callOpenAI ::
  "string \<Rightarrow> (string \<Rightarrow> string + 'j) \<Rightarrow> provider_outcome \<Rightarrow> thrown + 'j" where
  "callOpenAI endpoint json_parse outcome =
     (case outcome of
        Inl error \<Rightarrow> Inl (classify_failure error)
      | Inr response \<Rightarrow>
          (case json_parse (message_content response) of
             Inl msg \<Rightarrow> Inl (classify_failure \<lparr>err_code = None, err_message = msg, err_status = None\<rparr>)
           | Inr parsed \<Rightarrow> Inr parsed))"

text \<open>
  \<open>retry\<close>: the loop over \<open>attempt = 1 .. maxAttempts\<close>. \<open>fn k\<close> is the outcome of the
  k-th invocation of the retried function. The trace records each invocation and each
  sleep (milliseconds) in order. An exception without a \<open>statusCode\<close> is retried. When
  the thrown value is \<open>undefined\<close>, reading its \<open>statusCode\<close> in the catch block throws
  a TypeError, which leaves \<open>retry\<close> at once.
\<close>

datatype event = Invoke nat | Sleep nat

definition statusCode_of :: "thrown \<Rightarrow> nat option" where
  "statusCode_of t = (case t of App e \<Rightarrow> Some (statusCode e) | _ \<Rightarrow> None)"

definition is_client_error :: "thrown \<Rightarrow> bool" where
  "is_client_error error =
     (case statusCode_of error of None \<Rightarrow> False
      | Some s \<Rightarrow> s \<noteq> 0 \<and> s \<ge> 400 \<and> s < 500)"

function retry_from ::
  "(nat \<Rightarrow> thrown + 'a) \<Rightarrow> nat \<Rightarrow> nat \<Rightarrow> nat \<Rightarrow> thrown \<Rightarrow> (thrown + 'a) \<times> event list" where
  "retry_from fn maxAttempts baseDelay attempt lastError =
     (if attempt \<le> maxAttempts
      then (case fn attempt of
              Inr result \<Rightarrow> (Inr result, [Invoke attempt])
            | Inl error \<Rightarrow>
                if error = Undefined
                then (Inl (Other ''Cannot read properties of undefined (reading statusCode)''),
                      [Invoke attempt])
                else if is_client_error error then (Inl error, [Invoke attempt])
                else let pause = (if attempt < maxAttempts
                                  then [Sleep (baseDelay * 2 ^ (attempt - 1))] else []);
                         (outcome, trace) = retry_from fn maxAttempts baseDelay (attempt + 1) error
                     in (outcome, Invoke attempt # pause @ trace))
      else (Inl lastError, []))"
  by pat_completeness auto
termination
  by (relation "measure (\<lambda>(fn, maxAttempts, baseDelay, attempt, lastError). Suc maxAttempts - attempt)")
     auto

declare retry_from.simps [simp del]

definition retry :: "(nat \<Rightarrow> thrown + 'a) \<Rightarrow> nat \<Rightarrow> nat \<Rightarrow> (thrown + 'a) \<times> event list" where
  "retry fn maxAttempts baseDelay = retry_from fn maxAttempts baseDelay 1 Undefined"

text \<open>
  The four gateway methods (\<open>analyzeBrand\<close>, \<open>findCompetitors\<close>, \<open>analyzeCompetitor\<close>,
  \<open>assembleKernel\<close>) have one body up to the endpoint tag: \<open>retry\<close> around \<open>callOpenAI\<close>
  with 3 attempts and a base delay of 2000 ms. \<open>provider k\<close> is the outcome of the k-th
  outbound call.
\<close>

definition gateway_call ::
  "string \<Rightarrow> (string \<Rightarrow> string + 'j) \<Rightarrow> (nat \<Rightarrow> provider_outcome) \<Rightarrow> (thrown + 'j) \<times> event list" where
  "gateway_call endpoint json_parse provider =
     retry (\<lambda>k. callOpenAI endpoint json_parse (provider k)) 3 2000"

definition analyzeBrand ::
  "(string \<Rightarrow> string + 'j) \<Rightarrow> (nat \<Rightarrow> provider_outcome) \<Rightarrow> (thrown + 'j) \<times> event list" where
  "analyzeBrand = gateway_call ''brand-analysis''"

definition findCompetitors ::
  "(string \<Rightarrow> string + 'j) \<Rightarrow> (nat \<Rightarrow> provider_outcome) \<Rightarrow> (thrown + 'j) \<times> event list" where
  "findCompetitors = gateway_call ''competitors-discovery''"

definition analyzeCompetitor ::
  "(string \<Rightarrow> string + 'j) \<Rightarrow> (nat \<Rightarrow> provider_outcome) \<Rightarrow> (thrown + 'j) \<times> event list" where
  "analyzeCompetitor = gateway_call ''competitor-analysis''"

definition assembleKernel ::
  "(string \<Rightarrow> string + 'j) \<Rightarrow> (nat \<Rightarrow> provider_outcome) \<Rightarrow> (thrown + 'j) \<times> event list" where
  "assembleKernel = gateway_call ''kernel-assembly''"

text \<open>The outbound calls and the waits of a trace.\<close>

fun calls :: "event list \<Rightarrow> nat" where
  "calls [] = 0"
| "calls (Invoke k # es) = Suc (calls es)"
| "calls (Sleep d # es) = calls es"


text \<open>Providers and a parser used to run the gateway on concrete inputs.\<close>

definition provider_401 :: "nat \<Rightarrow> provider_outcome" where
  "provider_401 k = Inl \<lparr>err_code = None,
     err_message = ''401 Incorrect API key provided'', err_status = Some 401\<rparr>"

definition provider_404 :: "nat \<Rightarrow> provider_outcome" where
  "provider_404 k = Inl \<lparr>err_code = None,
     err_message = ''404 The model does not exist'', err_status = Some 404\<rparr>"


definition parse_any :: "string \<Rightarrow> string + string" where
  "parse_any s = (if s = [] then Inl ''Unexpected end of JSON input'' else Inr s)"

section \<open>Run store (db/models/runs.model.js, services/storage.service.js)\<close>

text \<open>
  The \<open>runs\<close> relation as a list of rows, \<open>run_id\<close> being the primary key. Time stamps
  are integers (milliseconds); \<open>NOW()\<close> is a parameter. The artifact columns are
  nullable. The artifacts keep the fields the handlers read; the other fields of the
  JSON objects live in the records' extension.
\<close>

datatype run_status = active | archived | deleted

record brand_analysis =
  name :: string
  summary :: "string option"
  evidence_refs :: "string list"
  confidence_0_1 :: real
  evidence_validation :: "evidence_check option"

record candidate =
  cand_name :: string
  cand_domain :: string
  cand_confidence_0_1 :: real

record kernel =
  kernel_report_md :: "string option"
  recommendations :: "string list"

record run =
  run_id :: string
  created_at :: int
  updated_at :: int
  expires_at :: int
  run_state :: run_status
  brand_data :: "brand_analysis option"
  brand_summary :: "string option"
  competitors_10 :: "candidate list option"
  competitors_selected :: "brand_analysis list option"
  kernel_data :: "kernel option"
  report_md :: "string option"

type_synonym store = "run list"

text \<open>
  The migration declares the key column as \<open>run_id UUID PRIMARY KEY\<close>. Every query
  passes the identifier as text, and the database reads it as a UUID before anything
  else: a text that is not a UUID makes the query fail. The model takes the canonical
  spelling, 32 hexadecimal digits in groups of 8, 4, 4, 4 and 12 separated by hyphens,
  in either case, and keeps the value in lower case. (The database also reads a few other
  spellings of the same values, all made of hexadecimal digits, hyphens and braces.)
\<close>

definition is_hex_digit :: "char \<Rightarrow> bool" where
  "is_hex_digit c \<longleftrightarrow> c \<in> set ''0123456789abcdefABCDEF''"

definition is_uuid :: "string \<Rightarrow> bool" where
  "is_uuid s \<longleftrightarrow>
     length s = 36
     \<and> list_all is_hex_digit (take 8 s) \<and> take 1 (drop 8 s) = ''-''
     \<and> list_all is_hex_digit (take 4 (drop 9 s)) \<and> take 1 (drop 13 s) = ''-''
     \<and> list_all is_hex_digit (take 4 (drop 14 s)) \<and> take 1 (drop 18 s) = ''-''
     \<and> list_all is_hex_digit (take 4 (drop 19 s)) \<and> take 1 (drop 23 s) = ''-''
     \<and> list_all is_hex_digit (drop 24 s)"

definition uuid_in :: "string \<Rightarrow> thrown + string" where
  "uuid_in s =
     (if is_uuid s then Inr (toLowerCase s)
      else Inl (Other (''invalid input syntax for type uuid: '' @ s)))"





text \<open>\<open>SELECT * FROM runs WHERE run_id = $1 AND status = 'active'\<close>, first row or null.\<close>

definition getRun :: "store \<Rightarrow> string \<Rightarrow> thrown + run option" where
  "getRun st runId =
     (case uuid_in runId of
        Inl e \<Rightarrow> Inl e
      | Inr key \<Rightarrow> Inr (find (\<lambda>r. run_id r = key \<and> run_state r = active) st))"

text \<open>\<open>SELECT COUNT(*) FROM runs WHERE status = 'active' AND expires_at > NOW()\<close>.\<close>

definition getActiveRunsCount :: "int \<Rightarrow> store \<Rightarrow> nat" where
  "getActiveRunsCount now st =
     length (filter (\<lambda>r. run_state r = active \<and> expires_at r > now) st)"

text \<open>
  \<open>cleanup_expired_data\<close>, the part on runs:
  \<open>DELETE FROM runs WHERE expires_at < CURRENT_TIMESTAMP AND status != 'archived'\<close>.
\<close>

definition cleanup_expired_runs :: "int \<Rightarrow> store \<Rightarrow> nat \<times> store" where
  "cleanup_expired_runs now st =
     (length (filter (\<lambda>r. expires_at r < now \<and> run_state r \<noteq> archived) st),
      filter (\<lambda>r. \<not> (expires_at r < now \<and> run_state r \<noteq> archived)) st)"

text \<open>
  \<open>updateRun\<close> builds its SET clause from the keys of the \<open>updates\<close> object, skipping
  \<open>run_id\<close>; with no field left it only reads the run. The trigger
  \<open>update_runs_updated_at\<close> stamps every updated row. The UPDATE has no status filter;
  it returns the updated row, or nothing when there is none.
\<close>

datatype field_update =
    Set_run_id string
  | Set_brand_data brand_analysis
  | Set_brand_summary "string option"
  | Set_competitors_10 "candidate list"
  | Set_competitors_selected "brand_analysis list"
  | Set_kernel_data kernel
  | Set_report_md "string option"

text \<open>
  A value whose \<open>typeof\<close> is \<open>object\<close> is passed as its JSON text, and null is such a
  value: a null summary or report reaches the text column as the four characters \<open>null\<close>.
\<close>

definition stored_text :: "string option \<Rightarrow> string" where
  "stored_text v = (case v of None \<Rightarrow> ''null'' | Some x \<Rightarrow> x)"

fun apply_update :: "field_update \<Rightarrow> run \<Rightarrow> run" where
  "apply_update (Set_run_id v) r = r"
| "apply_update (Set_brand_data v) r = r\<lparr>brand_data := Some v\<rparr>"
| "apply_update (Set_brand_summary v) r = r\<lparr>brand_summary := Some (stored_text v)\<rparr>"
| "apply_update (Set_competitors_10 v) r = r\<lparr>competitors_10 := Some v\<rparr>"
| "apply_update (Set_competitors_selected v) r = r\<lparr>competitors_selected := Some v\<rparr>"
| "apply_update (Set_kernel_data v) r = r\<lparr>kernel_data := Some v\<rparr>"
| "apply_update (Set_report_md v) r = r\<lparr>report_md := Some (stored_text v)\<rparr>"

fun is_run_id_key :: "field_update \<Rightarrow> bool" where
  "is_run_id_key (Set_run_id v) = True"
| "is_run_id_key _ = False"

definition updateRun ::
  "int \<Rightarrow> string \<Rightarrow> field_update list \<Rightarrow> store \<Rightarrow> (thrown + run option) \<times> store" where
  "updateRun now runId updates st =
     (let fields = filter (\<lambda>u. \<not> is_run_id_key u) updates in
      if length fields = 0 then (getRun st runId, st)
      else (case uuid_in runId of
              Inl e \<Rightarrow> (Inl e, st)
            | Inr key \<Rightarrow>
                let st' = map (\<lambda>r. if run_id r = key
                                     then (fold apply_update fields r)\<lparr>updated_at := now\<rparr>
                                     else r) st
                in (Inr (find (\<lambda>r. run_id r = key) st'), st')))"

text \<open>\<open>x || null\<close> on an optional string: the empty string is falsy.\<close>

definition or_null :: "string option \<Rightarrow> string option" where
  "or_null v = (case v of None \<Rightarrow> None | Some x \<Rightarrow> if x = [] then None else Some x)"


definition saveCompetitors ::
  "int \<Rightarrow> string \<Rightarrow> candidate list \<Rightarrow> store \<Rightarrow> (thrown + run option) \<times> store" where
  "saveCompetitors now runId competitors st =
     updateRun now runId [Set_competitors_10 competitors] st"

definition saveAnalyzedCompetitors ::
  "int \<Rightarrow> string \<Rightarrow> brand_analysis list \<Rightarrow> store \<Rightarrow> (thrown + run option) \<times> store" where
  "saveAnalyzedCompetitors now runId competitors st =
     updateRun now runId [Set_competitors_selected competitors] st"

definition saveKernel ::
  "int \<Rightarrow> string \<Rightarrow> kernel \<Rightarrow> store \<Rightarrow> (thrown + run option) \<times> store" where
  "saveKernel now runId kernelData st =
     updateRun now runId [Set_kernel_data kernelData,
                          Set_report_md (or_null (kernel_report_md kernelData))] st"

text \<open>
  \<open>StorageService.getRun\<close>: the model's read, throwing when asked to and the run is
  not found; a failure of the query passes through.
\<close>

definition storage_getRun :: "store \<Rightarrow> string \<Rightarrow> bool \<Rightarrow> thrown + run option" where
  "storage_getRun st runId throwIfNotFound =
     (case getRun st runId of
        Inl e \<Rightarrow> Inl e
      | Inr None \<Rightarrow> if throwIfNotFound
                    then Inl (App (UpstreamArtifactMissingError (''Run not found: '' @ runId) NoDetails))
                    else Inr None
      | Inr (Some r) \<Rightarrow> Inr (Some r))"

section \<open>Request validation (utils/validation.js)\<close>

text \<open>
  The schemas of the four request bodies, on bodies that have the required fields with
  the right JSON types. \<open>run_id\<close> must match \<^verbatim>\<open>^run_[a-f0-9-]+$\<close>. The format
  \<open>uri\<close> is the schema library's, a parameter here.
\<close>

definition is_run_id_char :: "char \<Rightarrow> bool" where
  "is_run_id_char c \<longleftrightarrow> c \<in> set ''abcdef0123456789-''"

definition valid_run_id :: "string \<Rightarrow> bool" where
  "valid_run_id s \<longleftrightarrow> take 4 s = ''run_'' \<and> drop 4 s \<noteq> [] \<and> list_all is_run_id_char (drop 4 s)"


definition validateCompetitors :: "string \<Rightarrow> string \<Rightarrow> bool" where
  "validateCompetitors brand_domain runId \<longleftrightarrow> length brand_domain \<ge> 3 \<and> valid_run_id runId"

definition validateCompetitorsAnalyze :: "string \<Rightarrow> string list \<Rightarrow> bool" where
  "validateCompetitorsAnalyze runId domains \<longleftrightarrow>
     valid_run_id runId \<and> list_all (\<lambda>d. length d \<ge> 3) domains
     \<and> length domains \<ge> 1 \<and> length domains \<le> 10"

definition validateKernel :: "string \<Rightarrow> bool" where
  "validateKernel runId \<longleftrightarrow> valid_run_id runId"

definition validate :: "bool \<Rightarrow> string \<Rightarrow> thrown + unit" where
  "validate is_valid_body schemaName =
     (if \<not> is_valid_body
      then Inl (App (ValidationError (schemaName @ '' validation failed'') SchemaErrors))
      else Inr ())"

section \<open>Phase handlers (routes of stage 1, services/card.service.js)\<close>

text \<open>
  A handler runs against the run store and the services of the request: the clock, the
  UUID the generator returns next, the URL parser, HEAD requests, and the outcomes of the
  scraper and of the four gateway methods on the arguments they are called with. Of a
  reply the model keeps the run identifier and the phase body; of the brand card its
  type, title and confidence. Timing fields and log lines are left out.
\<close>

record services =
  now_of :: int
  fresh_uuid :: string
  url_parser :: "string \<Rightarrow> string + url"
  uri_format_of :: "string \<Rightarrow> bool"
  head_request :: "string \<Rightarrow> string + response"
  scrape :: "string \<Rightarrow> thrown + scrape_result"
  analyze_brand :: "scrape_result \<Rightarrow> thrown + brand_analysis"
  find_competitors :: "brand_analysis \<Rightarrow> thrown + candidate list option"
  analyze_competitor :: "string \<Rightarrow> scrape_result \<Rightarrow> thrown + brand_analysis"
  assemble_kernel :: "brand_analysis \<Rightarrow> brand_analysis list \<Rightarrow> thrown + kernel"

record card =
  card_type :: string
  card_title :: string
  card_confidence :: real


record brand_reply =
  brand_run_id :: string
  brand :: brand_analysis
  brand_card :: card
  pages_scraped :: nat

record competitors_reply =
  competitors_run_id :: string
  competitors :: "candidate list"

record analyze_reply =
  analyze_run_id :: string
  analyzed :: "brand_analysis list"

record kernel_reply =
  kernel_run_id :: string
  kernel_brand :: brand_analysis
  kernel_competitors :: "brand_analysis list"
  kernel_body :: kernel


text \<open>\<open>POST /v1/competitors\<close>\<close>

definition competitors_route ::
  "services \<Rightarrow> store \<Rightarrow> string \<Rightarrow> string \<Rightarrow> (thrown + competitors_reply) \<times> store" where
  "competitors_route sv st brand_domain runId =
     (case validate (validateCompetitors brand_domain runId) ''Competitors Request'' of
        Inl e \<Rightarrow> (Inl e, st)
      | Inr _ \<Rightarrow>
     (case storage_getRun st runId True of
        Inl e \<Rightarrow> (Inl e, st)
      | Inr None \<Rightarrow> (Inl (Other ''Cannot read properties of null''), st)
      | Inr (Some run) \<Rightarrow>
     (case brand_data run of
        None \<Rightarrow> (Inl (App (UpstreamArtifactMissingError
                    ''Brand analysis not found for this run'' NoDetails)), st)
      | Some brandData \<Rightarrow>
     (case find_competitors sv brandData of
        Inl e \<Rightarrow> (Inl e, st)
      | Inr found \<Rightarrow>
          let discovered = (case found of None \<Rightarrow> [] | Some cs \<Rightarrow> cs);
              filteredCompetitors = filter (\<lambda>c. cand_confidence_0_1 c \<ge> 0.6) discovered
          in (case saveCompetitors (now_of sv) runId filteredCompetitors st of
                (Inl e, st1) \<Rightarrow> (Inl e, st1)
              | (Inr saved, st1) \<Rightarrow>
                  (Inr \<lparr>competitors_run_id = runId, competitors = filteredCompetitors\<rparr>,
                   st1))))))"

text \<open>
  \<open>POST /v1/competitors/analyze\<close>: the work on one domain, then all domains. The
  analyses run concurrently and any failure fails the phase; the model reports the
  failure of the first failing domain in the order of the request.
\<close>

definition analyze_domain :: "services \<Rightarrow> string \<Rightarrow> thrown + brand_analysis" where
  "analyze_domain sv domain =
     (case scrape sv (''https://'' @ domain) of
        Inl e \<Rightarrow> Inl e
      | Inr scrapedData \<Rightarrow>
     (case analyze_competitor sv domain scrapedData of
        Inl e \<Rightarrow> Inl e
      | Inr analysis \<Rightarrow>
          let evidenceCheck = checkEvidenceRefs (url_parser sv) (head_request sv)
                                (evidence_refs analysis) [Some domain];
              adjustedConfidence =
                max 0 (confidence_0_1 analysis - confidence_penalty evidenceCheck)
          in Inr (analysis\<lparr>confidence_0_1 := adjustedConfidence,
                            evidence_validation := Some evidenceCheck\<rparr>)))"

fun promise_all :: "(thrown + 'a) list \<Rightarrow> thrown + 'a list" where
  "promise_all [] = Inr []"
| "promise_all (Inl e # rest) = Inl e"
| "promise_all (Inr v # rest) = (case promise_all rest of Inl e \<Rightarrow> Inl e | Inr vs \<Rightarrow> Inr (v # vs))"

definition competitors_analyze_route ::
  "services \<Rightarrow> store \<Rightarrow> string \<Rightarrow> string list \<Rightarrow> (thrown + analyze_reply) \<times> store" where
  "competitors_analyze_route sv st runId domains =
     (case validate (validateCompetitorsAnalyze runId domains) ''Competitors Analyze Request'' of
        Inl e \<Rightarrow> (Inl e, st)
      | Inr _ \<Rightarrow>
     (case storage_getRun st runId True of
        Inl e \<Rightarrow> (Inl e, st)
      | Inr None \<Rightarrow> (Inl (Other ''Cannot read properties of null''), st)
      | Inr (Some run) \<Rightarrow>
     (case competitors_10 run of
        None \<Rightarrow> (Inl (App (UpstreamArtifactMissingError
                    ''Competitors not discovered yet'' NoDetails)), st)
      | Some _ \<Rightarrow>
     (case promise_all (map (analyze_domain sv) domains) of
        Inl e \<Rightarrow> (Inl e, st)
      | Inr analyses \<Rightarrow>
          (case saveAnalyzedCompetitors (now_of sv) runId analyses st of
             (Inl e, st1) \<Rightarrow> (Inl e, st1)
           | (Inr saved, st1) \<Rightarrow>
               (Inr \<lparr>analyze_run_id = runId, analyzed = analyses\<rparr>, st1))))))"

text \<open>\<open>POST /v1/kernel\<close>\<close>

definition kernel_route ::
  "services \<Rightarrow> store \<Rightarrow> string \<Rightarrow> (thrown + kernel_reply) \<times> store" where
  "kernel_route sv st runId =
     (case validate (validateKernel runId) ''Kernel Request'' of
        Inl e \<Rightarrow> (Inl e, st)
      | Inr _ \<Rightarrow>
     (case storage_getRun st runId True of
        Inl e \<Rightarrow> (Inl e, st)
      | Inr None \<Rightarrow> (Inl (Other ''Cannot read properties of null''), st)
      | Inr (Some run) \<Rightarrow>
     (case brand_data run of
        None \<Rightarrow> (Inl (App (UpstreamArtifactMissingError ''Brand analysis not found'' NoDetails)), st)
      | Some brandData \<Rightarrow>
          if competitors_selected run = None \<or> competitors_selected run = Some []
          then (Inl (App (UpstreamArtifactMissingError
                  ''No analyzed competitors found'' NoDetails)), st)
          else
     (let selected = (case competitors_selected run of None \<Rightarrow> [] | Some cs \<Rightarrow> cs) in
      case assemble_kernel sv brandData selected of
        Inl e \<Rightarrow> (Inl e, st)
      | Inr kernelData \<Rightarrow>
          (case saveKernel (now_of sv) runId kernelData st of
             (Inl e, st1) \<Rightarrow> (Inl e, st1)
           | (Inr saved, st1) \<Rightarrow>
               (Inr \<lparr>kernel_run_id = runId, kernel_brand = brandData,
                      kernel_competitors = selected, kernel_body = kernelData\<rparr>, st1))))))"

text \<open>Stores, services and artifacts used to run the handlers on concrete inputs.\<close>

definition brand_example :: "real \<Rightarrow> string list \<Rightarrow> brand_analysis" where
  "brand_example c refs = \<lparr>name = ''Example'', summary = Some ''An example brand.'',
     evidence_refs = refs, confidence_0_1 = c, evidence_validation = None\<rparr>"

definition uuid_example :: string where
  "uuid_example = ''0a0a0a0a-0a0a-4a0a-8a0a-0a0a0a0a0a0a''"

definition run_example :: "string \<Rightarrow> int \<Rightarrow> run" where
  "run_example rid deadline = \<lparr>run_id = rid, created_at = 0, updated_at = 0,
     expires_at = deadline, run_state = active, brand_data = None, brand_summary = None,
     competitors_10 = None, competitors_selected = None, kernel_data = None, report_md = None\<rparr>"


definition three_pages :: scrape_result where
  "three_pages = \<lparr>pages = [page_of ''one'', page_of ''two'', page_of ''three''],
     metadata = \<lparr>meta_url = ''https://example.com/about'', meta_domain = Some ''example.com'',
       totalCandidates = 21, validUrls = 3, scrapedPages = 3, uniquePages = 3,
       durationMs = 0, meta_scrapedAt = 0\<rparr>\<rparr>"

definition services_example :: "real \<Rightarrow> string list \<Rightarrow> services" where
  "services_example c refs = \<lparr>now_of = 1000,
     fresh_uuid = ''3f2504e0-4f89-41d3-9a0c-0305e82c3301'',
     url_parser = parse_example, uri_format_of = (\<lambda>u. True), head_request = fetch_ok,
     scrape = (\<lambda>u. Inr three_pages),
     analyze_brand = (\<lambda>d. Inr (brand_example c refs)),
     find_competitors = (\<lambda>b. Inr None),
     analyze_competitor = (\<lambda>d s. Inr (brand_example c refs)),
     assemble_kernel = (\<lambda>b cs. Inr \<lparr>kernel_report_md = None, recommendations = []\<rparr>)\<rparr>"

section \<open>Properties\<close>

lemma calculateConfidencePenalty_bounds:
  "0 \<le> calculateConfidencePenalty i t \<and> calculateConfidencePenalty i t \<le> 0.3"
proof (cases "t = 0")
  case True
  then show ?thesis by (simp add: calculateConfidencePenalty_def)
next
  case False
  have "0 \<le> real i / real t * 0.3" by simp
  then have "0 \<le> min (real i / real t * 0.3) (0.3::real)" by simp
  moreover have "min (real i / real t * 0.3) (0.3::real) \<le> 0.3" by (rule min.cobounded2)
  ultimately show ?thesis using False
    by (simp only: calculateConfidencePenalty_def Let_def if_False)
qed

lemma calculateConfidencePenalty_zero_iff:
  "0 < t \<Longrightarrow> calculateConfidencePenalty i t = 0 \<longleftrightarrow> i = 0"
  by (auto simp: calculateConfidencePenalty_def Let_def min_def)

lemma checkEvidenceRefs_lengths:
  "length (valid (checkEvidenceRefs h f urls allow)) + length (invalid (checkEvidenceRefs h f urls allow))
     = length urls"
  using sum_length_filter_compl [of "\<lambda>x. is_valid (validateUrl h f x allow)" urls]
  by (simp add: checkEvidenceRefs_def Let_def comp_def)

subsection \<open>C4: the evidence penalty\<close>

lemma checkEvidenceRefs_penalty:
  "confidence_penalty (checkEvidenceRefs h f urls allow) =
     calculateConfidencePenalty (length (invalid (checkEvidenceRefs h f urls allow))) (length urls)"
  by (simp add: checkEvidenceRefs_def Let_def calculateConfidencePenalty_def)

text \<open>
  C4 (as stated in the specification, refuted): the penalty is claimed to be 0 if and only
  if the URL list is empty. A single cited URL that validates gives a non-empty list with
  penalty 0.
\<close>

theorem C4_penalty_zero_nonempty_counterexample:
  "confidence_penalty
     (checkEvidenceRefs parse_example fetch_ok [''https://example.com/about''] [Some ''example.com'']) = 0
   \<and> [''https://example.com/about''] \<noteq> []"
  by (simp add: checkEvidenceRefs_def validateUrl_def extractDomain_def strip_www_def
      parse_example_def https_url_def fetch_ok_def calculateConfidencePenalty_def Let_def)

text \<open>
  C4 (amended): for every list of evidence URLs with total count t of which i are invalid,
  the penalty is \<open>min (i / t * 0.3) 0.3\<close>, and 0 when t = 0; it lies in [0, 0.3]; and it
  is 0 if and only if no URL is invalid (which includes the empty list).
\<close>

theorem C4_evidence_penalty:
  "confidence_penalty (checkEvidenceRefs h f urls allow) =
     (if length urls = 0 then 0
      else min (real (length (invalid (checkEvidenceRefs h f urls allow))) / real (length urls) * 0.3) 0.3)
   \<and> 0 \<le> confidence_penalty (checkEvidenceRefs h f urls allow)
   \<and> confidence_penalty (checkEvidenceRefs h f urls allow) \<le> 0.3
   \<and> (confidence_penalty (checkEvidenceRefs h f urls allow) = 0
        \<longleftrightarrow> invalid (checkEvidenceRefs h f urls allow) = [])
   \<and> length (valid (checkEvidenceRefs h f urls allow))
        + length (invalid (checkEvidenceRefs h f urls allow)) = length urls"
proof -
  let ?ec = "checkEvidenceRefs h f urls allow"
  have formula: "confidence_penalty ?ec =
     (if length urls = 0 then 0
      else min (real (length (invalid ?ec)) / real (length urls) * 0.3) 0.3)"
    by (simp add: checkEvidenceRefs_penalty calculateConfidencePenalty_def Let_def)
  have bounds: "0 \<le> confidence_penalty ?ec \<and> confidence_penalty ?ec \<le> 0.3"
    using calculateConfidencePenalty_bounds by (simp add: checkEvidenceRefs_penalty)
  have zero: "confidence_penalty ?ec = 0 \<longleftrightarrow> invalid ?ec = []"
  proof (cases "urls = []")
    case True
    then show ?thesis by (simp add: checkEvidenceRefs_def)
  next
    case False
    then have "0 < length urls" by simp
    then show ?thesis
      using calculateConfidencePenalty_zero_iff [of "length urls" "length (invalid ?ec)"]
      by (simp add: checkEvidenceRefs_penalty)
  qed
  show ?thesis
    using formula bounds zero checkEvidenceRefs_lengths [of h f urls allow] by blast
qed

theorem C4_evidence_penalty_witness:
  "confidence_penalty
     (checkEvidenceRefs parse_example fetch_ok
        [''https://example.com/about'', ''https://evil.io/x''] [Some ''example.com'']) = 0.15
   \<and> length (invalid (checkEvidenceRefs parse_example fetch_ok
        [''https://example.com/about'', ''https://evil.io/x''] [Some ''example.com''])) = 1"
proof -
  have inv: "invalid (checkEvidenceRefs parse_example fetch_ok
        [''https://example.com/about'', ''https://evil.io/x''] [Some ''example.com''])
      = [\<lparr>ref_url = ''https://evil.io/x'', reason = ''Domain not in allowed list''\<rparr>]"
    by (simp add: checkEvidenceRefs_def validateUrl_def extractDomain_def strip_www_def
        parse_example_def https_url_def fetch_ok_def Let_def)
  show ?thesis
    using C4_evidence_penalty [of parse_example fetch_ok
        "[''https://example.com/about'', ''https://evil.io/x'']" "[Some ''example.com'']"]
    by (simp add: inv)
qed

subsection \<open>C7: near-duplicate collapse\<close>

lemma jaccardSimilarity_commute: "jaccardSimilarity a b = jaccardSimilarity b a"
proof -
  have "{x \<in> a. x \<in> b} = {x \<in> b. x \<in> a}" by blast
  then show ?thesis by (simp add: jaccardSimilarity_def Let_def Un_commute)
qed

lemma isDuplicate_iff:
  "isDuplicate w us \<longleftrightarrow> (\<exists>u \<in> set us. jaccardSimilarity w (words_of u) > 0.8)"
  by (induction us) auto

lemma dedup_loop_snoc:
  "dedup_loop unique (xs @ [p]) =
     (if isDuplicate (words_of p) (dedup_loop unique xs) then dedup_loop unique xs
      else dedup_loop unique xs @ [p])"
  by (induction xs arbitrary: unique) simp_all

lemma dedup_loop_extends:
  "\<exists>ys. dedup_loop unique xs = unique @ ys \<and> subseq ys xs"
proof (induction xs arbitrary: unique)
  case Nil
  then show ?case by simp
next
  case (Cons x xs)
  show ?case
  proof (cases "isDuplicate (words_of x) unique")
    case True
    from Cons.IH [of unique] obtain ys where "dedup_loop unique xs = unique @ ys" "subseq ys xs"
      by blast
    with True show ?thesis by (auto intro: subseq_Cons')
  next
    case False
    from Cons.IH [of "unique @ [x]"] obtain ys
      where "dedup_loop (unique @ [x]) xs = (unique @ [x]) @ ys" "subseq ys xs"
      by blast
    with False have "dedup_loop unique (x # xs) = unique @ (x # ys) \<and> subseq (x # ys) (x # xs)"
      by simp
    then show ?thesis by blast
  qed
qed

lemma dedup_loop_dissimilar:
  "sorted_wrt dissimilar unique \<Longrightarrow> sorted_wrt dissimilar (dedup_loop unique xs)"
proof (induction xs arbitrary: unique)
  case Nil
  then show ?case by simp
next
  case (Cons x xs)
  show ?case
  proof (cases "isDuplicate (words_of x) unique")
    case True
    with Cons show ?thesis by simp
  next
    case False
    then have "\<forall>u \<in> set unique. dissimilar u x"
      by (auto simp: isDuplicate_iff dissimilar_def jaccardSimilarity_commute [of "words_of x"]
          not_less)
    with Cons.prems have "sorted_wrt dissimilar (unique @ [x])"
      by (simp add: sorted_wrt_append)
    from Cons.IH [OF this] False show ?thesis by simp
  qed
qed

lemma deduplicateContent_subseq: "subseq (deduplicateContent input) input"
proof (cases input)
  case Nil
  then show ?thesis by (simp add: deduplicateContent_def)
next
  case (Cons p ps)
  from dedup_loop_extends [of "[p]" ps] obtain ys
    where "dedup_loop [p] ps = [p] @ ys" "subseq ys ps" by blast
  with Cons show ?thesis by (simp add: deduplicateContent_def)
qed

lemma deduplicateContent_hd:
  "input \<noteq> [] \<Longrightarrow> deduplicateContent input \<noteq> [] \<and> hd (deduplicateContent input) = hd input"
proof (cases input)
  case Nil
  assume "input \<noteq> []"
  with Nil show ?thesis by simp
next
  case (Cons p ps)
  from dedup_loop_extends [of "[p]" ps] obtain ys where "dedup_loop [p] ps = [p] @ ys" by blast
  with Cons show ?thesis by (simp add: deduplicateContent_def)
qed

lemma deduplicateContent_dissimilar: "sorted_wrt dissimilar (deduplicateContent input)"
proof (cases input)
  case Nil
  then show ?thesis by (simp add: deduplicateContent_def)
next
  case (Cons p ps)
  have "sorted_wrt dissimilar [p]" by simp
  from dedup_loop_dissimilar [OF this, of ps] Cons show ?thesis
    by (simp add: deduplicateContent_def)
qed

lemma deduplicateContent_snoc:
  "pre \<noteq> [] \<Longrightarrow> deduplicateContent (pre @ [p]) =
     (if \<exists>u \<in> set (deduplicateContent pre). jaccardSimilarity (words_of p) (words_of u) > 0.8
      then deduplicateContent pre else deduplicateContent pre @ [p])"
  by (cases pre) (simp_all add: deduplicateContent_def dedup_loop_snoc isDuplicate_iff)

lemma dissimilar_sym: "dissimilar p q \<Longrightarrow> dissimilar q p"
  by (simp add: dissimilar_def jaccardSimilarity_commute)

lemma sorted_wrt_dissimilar_nth:
  assumes "sorted_wrt dissimilar xs" "i < length xs" "j < length xs" "i \<noteq> j"
  shows "dissimilar (xs ! i) (xs ! j)"
proof (cases "i < j")
  case True
  with assms show ?thesis by (simp add: sorted_wrt_iff_nth_less)
next
  case False
  with assms have "j < i" by simp
  with assms have "dissimilar (xs ! j) (xs ! i)" by (simp add: sorted_wrt_iff_nth_less)
  then show ?thesis by (rule dissimilar_sym)
qed

text \<open>
  C7 (as stated in the specification, refuted): the similarity is claimed to be taken on
  the white-space-split tokens of the page content. The code lower-cases the content
  first: a page whose content is \<open>a\<close> is discarded after a page whose content is \<open>A\<close>,
  although the token sets of the two contents are disjoint (similarity 0).
\<close>

theorem C7_case_folding_counterexample:
  "deduplicateContent [page_of ''A'', page_of ''a''] = [page_of ''A'']
   \<and> jaccardSimilarity (set (split_ws (content (page_of ''a''))))
                       (set (split_ws (content (page_of ''A'')))) = 0"
  by code_simp

text \<open>
  C7 (amended): for every non-empty list of scraped pages, the collapse keeps the first
  page and processes the rest greedily, discarding a page exactly when its Jaccard
  similarity, on the white-space-split token sets of the lower-cased page contents, to
  some already-kept page exceeds 0.8; every two pages at distinct positions of the output
  have similarity at most 0.8, and the output is a subsequence of the input.
\<close>

theorem C7_deduplicateContent:
  "input \<noteq> [] \<Longrightarrow>
     deduplicateContent input \<noteq> []
   \<and> hd (deduplicateContent input) = hd input
   \<and> deduplicateContent (input @ [p]) =
       (if \<exists>u \<in> set (deduplicateContent input).
             jaccardSimilarity (words_of p) (words_of u) > 0.8
        then deduplicateContent input else deduplicateContent input @ [p])
   \<and> (\<forall>i j. i < length (deduplicateContent input) \<and> j < length (deduplicateContent input) \<and> i \<noteq> j
         \<longrightarrow> jaccardSimilarity (words_of (deduplicateContent input ! i))
                                (words_of (deduplicateContent input ! j)) \<le> 0.8)
   \<and> subseq (deduplicateContent input) input"
proof -
  assume ne: "input \<noteq> []"
  have pairs: "\<forall>i j. i < length (deduplicateContent input) \<and> j < length (deduplicateContent input) \<and> i \<noteq> j
         \<longrightarrow> jaccardSimilarity (words_of (deduplicateContent input ! i))
                                (words_of (deduplicateContent input ! j)) \<le> 0.8"
    using sorted_wrt_dissimilar_nth [OF deduplicateContent_dissimilar [of input]]
    by (simp add: dissimilar_def)
  show ?thesis
    using deduplicateContent_hd [OF ne] deduplicateContent_snoc [OF ne, of p] pairs
      deduplicateContent_subseq [of input]
    by blast
qed

theorem C7_deduplicateContent_witness:
  "[page_of ''red green blue'', page_of ''Red  GREEN blue'', page_of ''one two''] \<noteq> []
   \<and> deduplicateContent [page_of ''red green blue'', page_of ''Red  GREEN blue'', page_of ''one two'']
       = [page_of ''red green blue'', page_of ''one two'']
   \<and> jaccardSimilarity (words_of (page_of ''red green blue'')) (words_of (page_of ''one two'')) \<le> 0.8"
proof -
  have ne: "[page_of ''red green blue'', page_of ''Red  GREEN blue'', page_of ''one two''] \<noteq> []"
    by simp
  have out: "deduplicateContent [page_of ''red green blue'', page_of ''Red  GREEN blue'', page_of ''one two'']
       = [page_of ''red green blue'', page_of ''one two'']"
    by code_simp
  from C7_deduplicateContent [OF ne, of "page_of ''x''"]
  have pairs: "\<forall>i j. i < length (deduplicateContent [page_of ''red green blue'', page_of ''Red  GREEN blue'', page_of ''one two''])
          \<and> j < length (deduplicateContent [page_of ''red green blue'', page_of ''Red  GREEN blue'', page_of ''one two''])
          \<and> i \<noteq> j
         \<longrightarrow> jaccardSimilarity
               (words_of (deduplicateContent [page_of ''red green blue'', page_of ''Red  GREEN blue'', page_of ''one two''] ! i))
               (words_of (deduplicateContent [page_of ''red green blue'', page_of ''Red  GREEN blue'', page_of ''one two''] ! j)) \<le> 0.8"
    by blast
  from pairs [unfolded out, rule_format, of 0 1]
  have "jaccardSimilarity (words_of (page_of ''red green blue'')) (words_of (page_of ''one two'')) \<le> 0.8"
    by simp
  then show ?thesis using ne out by simp
qed

subsection \<open>C8 and C2: attempts, waits and what is retried\<close>

lemma classify_failure_status:
  "\<exists>e. classify_failure err = App e \<and> (statusCode e = 503 \<or> statusCode e = 504)"
  by (simp add: classify_failure_def OpenAIError_def OpenAITimeoutError_def AppError_def)

lemma callOpenAI_never_client_error:
  "callOpenAI ep parse outcome = Inl t \<Longrightarrow> \<not> is_client_error t"
proof -
  assume a: "callOpenAI ep parse outcome = Inl t"
  then obtain err where "t = classify_failure err"
    by (auto simp: callOpenAI_def split: sum.splits)
  with classify_failure_status [of err] show ?thesis
    by (auto simp: is_client_error_def statusCode_of_def)
qed

lemma callOpenAI_never_undefined:
  "callOpenAI ep parse outcome = Inl t \<Longrightarrow> t \<noteq> Undefined"
proof -
  assume "callOpenAI ep parse outcome = Inl t"
  then obtain err where "t = classify_failure err"
    by (auto simp: callOpenAI_def split: sum.splits)
  with classify_failure_status [of err] show ?thesis
    by auto
qed

lemma retry_3_2000:
  assumes "\<And>k e. fn k = Inl e \<Longrightarrow> e \<noteq> Undefined \<and> \<not> is_client_error e"
  shows "retry fn 3 2000 =
     (case fn 1 of
        Inr v \<Rightarrow> (Inr v, [Invoke 1])
      | Inl e1 \<Rightarrow>
          (case fn 2 of
             Inr v \<Rightarrow> (Inr v, [Invoke 1, Sleep 2000, Invoke 2])
           | Inl e2 \<Rightarrow>
               (case fn 3 of
                  Inr v \<Rightarrow> (Inr v, [Invoke 1, Sleep 2000, Invoke 2, Sleep 4000, Invoke 3])
                | Inl e3 \<Rightarrow> (Inl e3, [Invoke 1, Sleep 2000, Invoke 2, Sleep 4000, Invoke 3]))))"
proof -
  have four: "retry_from fn 3 2000 4 e = (Inl e, [])" for e
    by (subst retry_from.simps) simp
  have three: "retry_from fn 3 2000 3 e =
      (case fn 3 of Inr v \<Rightarrow> (Inr v, [Invoke 3]) | Inl e3 \<Rightarrow> (Inl e3, [Invoke 3]))" for e
    using assms [of 3]
    by (subst retry_from.simps) (auto simp: four split: sum.splits)
  have two: "retry_from fn 3 2000 2 e =
      (case fn 2 of Inr v \<Rightarrow> (Inr v, [Invoke 2])
       | Inl e2 \<Rightarrow> (fst (retry_from fn 3 2000 3 e2),
                   Invoke 2 # Sleep 4000 # snd (retry_from fn 3 2000 3 e2)))" for e
    using assms [of 2]
    by (subst retry_from.simps) (auto simp: split_beta split: sum.splits)
  have one: "retry_from fn 3 2000 (Suc 0) e =
      (case fn (Suc 0) of Inr v \<Rightarrow> (Inr v, [Invoke (Suc 0)])
       | Inl e1 \<Rightarrow> (fst (retry_from fn 3 2000 2 e1),
                   Invoke (Suc 0) # Sleep 2000 # snd (retry_from fn 3 2000 2 e1)))" for e
    using assms [of "Suc 0"]
    by (subst retry_from.simps)
       (auto simp: split_beta numeral_2_eq_2 [symmetric] split: sum.splits)
  show ?thesis
    by (simp add: retry_def one two three split: sum.splits)
qed

lemma gateway_call_cases:
  fixes ep parse provider
  defines "f \<equiv> \<lambda>k. callOpenAI ep parse (provider k)"
  shows "gateway_call ep parse provider =
     (case f 1 of
        Inr v \<Rightarrow> (Inr v, [Invoke 1])
      | Inl e1 \<Rightarrow>
          (case f 2 of
             Inr v \<Rightarrow> (Inr v, [Invoke 1, Sleep 2000, Invoke 2])
           | Inl e2 \<Rightarrow>
               (case f 3 of
                  Inr v \<Rightarrow> (Inr v, [Invoke 1, Sleep 2000, Invoke 2, Sleep 4000, Invoke 3])
                | Inl e3 \<Rightarrow> (Inl e3, [Invoke 1, Sleep 2000, Invoke 2, Sleep 4000, Invoke 3]))))"
  unfolding f_def gateway_call_def
  by (rule retry_3_2000) (blast dest: callOpenAI_never_client_error callOpenAI_never_undefined)



text \<open>
  C2 at a failing input: a provider that answers every call with HTTP 401 is called three
  times, with both waits, before the error (status 503, the 401 kept in the details only)
  is returned; the same holds for a 404.
\<close>

theorem C2_auth_failure_is_retried:
  "analyzeBrand parse_any provider_401 =
     (Inl (App (OpenAIError ''Invalid OpenAI API key'' (StatusDetails 401))),
      [Invoke 1, Sleep 2000, Invoke 2, Sleep 4000, Invoke 3])
   \<and> calls (snd (analyzeBrand parse_any provider_401)) = 3
   \<and> calls (snd (analyzeBrand parse_any provider_404)) = 3
   \<and> \<not> is_client_error (App (OpenAIError ''Invalid OpenAI API key'' (StatusDetails 401)))"
  by (simp add: analyzeBrand_def gateway_call_cases callOpenAI_def provider_401_def provider_404_def
      classify_failure_def is_client_error_def statusCode_of_def OpenAIError_def AppError_def)

subsection \<open>C9: the URL canonicaliser\<close>

lemma protocol_http_iff:
  "protocol parsed \<in> set [''http:'', ''https:''] \<longleftrightarrow> scheme parsed = ''http'' \<or> scheme parsed = ''https''"
  by (auto simp: protocol_def)

lemma sanitizeUrl_accepts:
  "sanitizeUrl parse_url U = Inr s \<longleftrightarrow>
     (\<exists>parsed. parse_url U = Inr parsed \<and> (scheme parsed = ''http'' \<or> scheme parsed = ''https'')
        \<and> s = href (parsed\<lparr>fragment := None\<rparr>))"
  by (auto simp: sanitizeUrl_def protocol_http_iff simp del: set_simps split: sum.splits)

lemma parse_example_range:
  "parse_example v = Inr q \<Longrightarrow>
     q = https_url ''example.com'' ''/about'' (Some ''team'')
     \<or> q = https_url ''example.com'' ''/about'' None
     \<or> q = https_url ''www.example.com'' ''/'' None
     \<or> q = https_url ''evil.io'' ''/x'' None
     \<or> q = (https_url ''example.com'' ''/file'' None)\<lparr>scheme := ''ftp''\<rparr>"
  unfolding parse_example_def by (simp split: if_splits)

lemma href_examples:
  "href ((https_url ''example.com'' ''/about'' (Some ''team''))\<lparr>fragment := None\<rparr>)
     = ''https://example.com/about''"
  "href ((https_url ''example.com'' ''/about'' None)\<lparr>fragment := None\<rparr>)
     = ''https://example.com/about''"
  "href ((https_url ''www.example.com'' ''/'' None)\<lparr>fragment := None\<rparr>)
     = ''https://www.example.com/''"
  "href ((https_url ''evil.io'' ''/x'' None)\<lparr>fragment := None\<rparr>) = ''https://evil.io/x''"
  by (simp_all add: https_url_def href_def)

lemma parse_examples:
  "parse_example ''https://example.com/about'' = Inr (https_url ''example.com'' ''/about'' None)"
  "parse_example ''https://www.example.com/'' = Inr (https_url ''www.example.com'' ''/'' None)"
  "parse_example ''https://evil.io/x'' = Inr (https_url ''evil.io'' ''/x'' None)"
  by (simp_all add: parse_example_def)

lemma parse_example_round_trip:
  assumes "parse_example v = Inr q" and "scheme q = ''http'' \<or> scheme q = ''https''"
  shows "parse_example (href (q\<lparr>fragment := None\<rparr>)) = Inr (q\<lparr>fragment := None\<rparr>)"
proof -
  from parse_example_range [OF assms(1)] assms(2)
  consider "q = https_url ''example.com'' ''/about'' (Some ''team'')"
    | "q = https_url ''example.com'' ''/about'' None"
    | "q = https_url ''www.example.com'' ''/'' None"
    | "q = https_url ''evil.io'' ''/x'' None"
    by (auto simp: https_url_def)
  then show ?thesis
  proof cases
    case 1
    then show ?thesis by (simp add: href_examples parse_examples) (simp add: https_url_def)
  next
    case 2
    then show ?thesis by (simp add: href_examples parse_examples) (simp add: https_url_def)
  next
    case 3
    then show ?thesis by (simp add: href_examples parse_examples) (simp add: https_url_def)
  next
    case 4
    then show ?thesis by (simp add: href_examples parse_examples) (simp add: https_url_def)
  qed
qed

text \<open>
  C9: assume of the platform's parser that it reads the serialisation of an http or
  https URL it has produced, with the fragment removed, back as that URL (the round trip
  of parsing and serialising). Then \<open>sanitizeUrl\<close> accepts a URL exactly when it parses
  and its scheme is http or https, and returns its serialisation without the fragment;
  it is idempotent: applied to a result of its own it returns that result; and it
  rejects every input that does not parse, and every URL of another scheme, with an
  error.
\<close>

theorem C9_sanitizeUrl:
  assumes round_trip:
    "\<And>v q. parse_url v = Inr q \<Longrightarrow> scheme q = ''http'' \<or> scheme q = ''https'' \<Longrightarrow>
       parse_url (href (q\<lparr>fragment := None\<rparr>)) = Inr (q\<lparr>fragment := None\<rparr>)"
  shows "(sanitizeUrl parse_url U = Inr s \<longleftrightarrow>
            (\<exists>parsed. parse_url U = Inr parsed
               \<and> (scheme parsed = ''http'' \<or> scheme parsed = ''https'')
               \<and> s = href (parsed\<lparr>fragment := None\<rparr>)))
       \<and> (sanitizeUrl parse_url U = Inr s \<longrightarrow> sanitizeUrl parse_url s = Inr s)
       \<and> (\<forall>msg. parse_url U = Inl msg \<longrightarrow>
             sanitizeUrl parse_url U = Inl (Other (''Invalid URL: '' @ msg)))
       \<and> (\<forall>parsed. parse_url U = Inr parsed \<and> scheme parsed \<noteq> ''http'' \<and> scheme parsed \<noteq> ''https'' \<longrightarrow>
             sanitizeUrl parse_url U
               = Inl (Other ''Invalid URL: Only HTTP and HTTPS protocols are allowed''))"
proof (intro conjI allI impI)
  show "sanitizeUrl parse_url U = Inr s \<longleftrightarrow>
            (\<exists>parsed. parse_url U = Inr parsed
               \<and> (scheme parsed = ''http'' \<or> scheme parsed = ''https'')
               \<and> s = href (parsed\<lparr>fragment := None\<rparr>))"
    by (rule sanitizeUrl_accepts)
next
  assume "sanitizeUrl parse_url U = Inr s"
  then obtain parsed where p: "parse_url U = Inr parsed"
      "scheme parsed = ''http'' \<or> scheme parsed = ''https''"
      "s = href (parsed\<lparr>fragment := None\<rparr>)"
    by (auto simp: sanitizeUrl_accepts)
  let ?q = "parsed\<lparr>fragment := None\<rparr>"
  have "parse_url s = Inr ?q"
    using round_trip [OF p(1) p(2)] p(3) by simp
  moreover have "scheme ?q = ''http'' \<or> scheme ?q = ''https''"
    using p(2) by simp
  moreover have "s = href (?q\<lparr>fragment := None\<rparr>)"
    using p(3) by simp
  ultimately show "sanitizeUrl parse_url s = Inr s"
    using sanitizeUrl_accepts [of parse_url s s] by blast
next
  fix msg
  assume "parse_url U = Inl msg"
  then show "sanitizeUrl parse_url U = Inl (Other (''Invalid URL: '' @ msg))"
    by (simp add: sanitizeUrl_def)
next
  fix parsed
  assume "parse_url U = Inr parsed \<and> scheme parsed \<noteq> ''http'' \<and> scheme parsed \<noteq> ''https''"
  then show "sanitizeUrl parse_url U
           = Inl (Other ''Invalid URL: Only HTTP and HTTPS protocols are allowed'')"
    by (simp add: sanitizeUrl_def protocol_http_iff del: set_simps)
qed

theorem C9_sanitizeUrl_witness:
  "sanitizeUrl parse_example ''https://example.com/about#team'' = Inr ''https://example.com/about''
   \<and> sanitizeUrl parse_example ''https://example.com/about'' = Inr ''https://example.com/about''
   \<and> sanitizeUrl parse_example ''ftp://example.com/file''
       = Inl (Other ''Invalid URL: Only HTTP and HTTPS protocols are allowed'')
   \<and> sanitizeUrl parse_example ''not-a-url'' = Inl (Other ''Invalid URL: Invalid URL'')"
proof -
  have p1: "parse_example ''https://example.com/about#team''
      = Inr (https_url ''example.com'' ''/about'' (Some ''team''))"
    by (simp add: parse_example_def)
  have s1: "scheme (https_url ''example.com'' ''/about'' (Some ''team'')) = ''https''"
    by (simp add: https_url_def)
  have h1: "''https://example.com/about''
      = href ((https_url ''example.com'' ''/about'' (Some ''team''))\<lparr>fragment := None\<rparr>)"
    by (simp add: href_examples)
  have p3: "parse_example ''ftp://example.com/file''
      = Inr ((https_url ''example.com'' ''/file'' None)\<lparr>scheme := ''ftp''\<rparr>)"
    by (simp add: parse_example_def)
  have s3: "scheme ((https_url ''example.com'' ''/file'' None)\<lparr>scheme := ''ftp''\<rparr>) \<noteq> ''http''"
      "scheme ((https_url ''example.com'' ''/file'' None)\<lparr>scheme := ''ftp''\<rparr>) \<noteq> ''https''"
    by simp_all
  have p4: "parse_example ''not-a-url'' = Inl ''Invalid URL''"
    by (simp add: parse_example_def)
  have c9: "(sanitizeUrl parse_example U = Inr s \<longleftrightarrow>
            (\<exists>parsed. parse_example U = Inr parsed
               \<and> (scheme parsed = ''http'' \<or> scheme parsed = ''https'')
               \<and> s = href (parsed\<lparr>fragment := None\<rparr>)))
       \<and> (sanitizeUrl parse_example U = Inr s \<longrightarrow> sanitizeUrl parse_example s = Inr s)
       \<and> (\<forall>msg. parse_example U = Inl msg \<longrightarrow>
             sanitizeUrl parse_example U = Inl (Other (''Invalid URL: '' @ msg)))
       \<and> (\<forall>parsed. parse_example U = Inr parsed \<and> scheme parsed \<noteq> ''http'' \<and> scheme parsed \<noteq> ''https'' \<longrightarrow>
             sanitizeUrl parse_example U
               = Inl (Other ''Invalid URL: Only HTTP and HTTPS protocols are allowed''))" for U s
    by (rule C9_sanitizeUrl) (rule parse_example_round_trip, assumption+)
  note canonical = c9 [of "''https://example.com/about#team''" "''https://example.com/about''"]
  note other_scheme = c9 [of "''ftp://example.com/file''" "[]"]
  note unparsed = c9 [of "''not-a-url''" "[]"]
  from canonical p1 s1 h1
  have first: "sanitizeUrl parse_example ''https://example.com/about#team''
      = Inr ''https://example.com/about''"
    by blast
  with canonical
  have second: "sanitizeUrl parse_example ''https://example.com/about''
      = Inr ''https://example.com/about''"
    by blast
  from other_scheme p3 s3
  have third: "sanitizeUrl parse_example ''ftp://example.com/file''
       = Inl (Other ''Invalid URL: Only HTTP and HTTPS protocols are allowed'')"
    by blast
  from unparsed p4
  have fourth: "sanitizeUrl parse_example ''not-a-url'' = Inl (Other ''Invalid URL: Invalid URL'')"
    by simp
  from first second third fourth show ?thesis by blast
qed

subsection \<open>C3: fail semantics of the scrape pipeline\<close>

lemma map_filter_append: "List.map_filter f (xs @ ys) = List.map_filter f xs @ List.map_filter f ys"
  by (simp add: List.map_filter_def)

lemma scrapePages_loop_total:
  "0 < step \<Longrightarrow>
     scrapePages_loop f step urls i acc = Some (acc @ List.map_filter f (drop i urls))"
proof (induction "length urls - i" arbitrary: i acc rule: less_induct)
  case less
  show ?case
  proof (cases "i < length urls")
    case True
    with less.prems have "length urls - (i + step) < length urls - i" by arith
    from less.hyps [OF this less.prems]
    have "scrapePages_loop f step urls (i + step) (acc @ List.map_filter f (take step (drop i urls)))
        = Some ((acc @ List.map_filter f (take step (drop i urls)))
                 @ List.map_filter f (drop (i + step) urls))" .
    moreover have "List.map_filter f (take step (drop i urls)) @ List.map_filter f (drop (i + step) urls)
        = List.map_filter f (drop i urls)"
    proof -
      have "take step (drop i urls) @ drop (i + step) urls = drop i urls"
        by (metis add.commute append_take_drop_id drop_drop)
      then show ?thesis
        by (metis map_filter_append)
    qed
    ultimately show ?thesis using True
      by (subst scrapePages_loop.simps) simp
  next
    case False
    then show ?thesis
      by (subst scrapePages_loop.simps) (simp add: map_filter_simps)
  qed
qed

lemma scrapePages_total:
  "0 < concurrency env \<Longrightarrow> scrapePages env urls = Some (List.map_filter (scrapePage env) urls)"
  by (simp add: scrapePages_def scrapePages_loop_total)

lemma discoverPages_nonempty: "discoverPages parse_url baseUrl \<noteq> []"
  by (simp add: discoverPages_def set_order_def Let_def commonPaths_def)

lemma validateUrls_fetch_ok: "validateUrls fetch_ok urls = urls"
  by (induction urls) (simp_all add: validateUrls_def fetch_ok_def map_filter_simps)

lemma map_filter_all_fail: "List.map_filter (scrapePage env_all_fetches_fail) urls = []"
  by (induction urls)
     (simp_all add: map_filter_simps scrapePage_def env_all_fetches_fail_def load_fails_def)

lemma validateUrls_head_none: "validateUrls head_none urls = []"
  by (induction urls) (simp_all add: validateUrls_def head_none_def map_filter_simps)

text \<open>
  C3 (as stated in the specification, refuted): when every probe succeeds and every page
  fetch fails, the fetch step yields zero pages, and \<open>scrapeWebsite\<close> returns a result
  with no pages and writes it to the cache; it does not fail with \<open>InsufficientData\<close>.
\<close>

theorem C3_zero_pages_counterexample:
  "scrapePages env_all_fetches_fail
       (validateUrls fetch_ok (discoverPages parse_example ''https://example.com/about'')) = Some []
   \<and> map_option (map_sum id pages \<circ> fst)
       (scrapeWebsite env_all_fetches_fail empty_cache ''https://example.com/about#team'') = Some (Inr [])
   \<and> map_option (map cached_url \<circ> durable_tier \<circ> snd)
       (scrapeWebsite env_all_fetches_fail empty_cache ''https://example.com/about#team'')
       = Some [''https://example.com/about'']
   \<and> map_option (map page_count \<circ> durable_tier \<circ> snd)
       (scrapeWebsite env_all_fetches_fail empty_cache ''https://example.com/about#team'')
       = Some [0]"
proof -
  have conc: "0 < concurrency env_all_fetches_fail"
    by (simp add: env_all_fetches_fail_def)
  have fetched: "scrapePages env_all_fetches_fail urls = Some []" for urls
    by (simp add: scrapePages_total [OF conc] map_filter_all_fail)
  have san: "sanitizeUrl parse_example ''https://example.com/about#team'' = Inr ''https://example.com/about''"
    by (simp add: sanitizeUrl_def parse_example_def https_url_def protocol_def href_def)
  have miss: "getScrapedContent no_faults hash_example 86400 1000 empty_cache ''https://example.com/about''
      = (None, empty_cache)"
    by (simp add: getScrapedContent_def getScrapedContent_try_def redis_get_def getCachedScraping_def
        no_faults_def empty_cache_def)
  have fields: "parse_of env_all_fetches_fail = parse_example"
      "hash_of env_all_fetches_fail = hash_example" "head_of env_all_fetches_fail = fetch_ok"
      "clock env_all_fetches_fail = 1000" "faults_of env_all_fetches_fail = no_faults"
      "scrapingTTL env_all_fetches_fail = 86400"
    by (simp_all add: env_all_fetches_fail_def)
  have sw: "scrapeWebsite env_all_fetches_fail empty_cache ''https://example.com/about#team''
      = fresh_scrape env_all_fetches_fail empty_cache ''https://example.com/about''"
    by (simp add: scrapeWebsite_def fields san miss)
  have written: "durable_tier (cacheScrapedContent no_faults hash_example 86400 1000 empty_cache
        ''https://example.com/about'' r None)
      = [\<lparr>url_hash = hash_example ''https://example.com/about'',
          cached_url = ''https://example.com/about'', cache_content = r, scraped_at = 1000,
          row_expires_at = 1000 + 86400 * 1000, page_count = length (pages r),
          row_total_tokens = 0, access_count = 1, last_accessed_at = 1000\<rparr>]" for r
    by (simp add: cacheScrapedContent_def redis_set_def setCachedScraping_def no_faults_def
        empty_cache_def Let_def)
  show ?thesis
    by (simp add: fetched sw fresh_scrape_def fields validateUrls_fetch_ok discoverPages_nonempty
        deduplicateContent_def written Let_def)
qed

text \<open>
  C3 (amended): for every input URL that canonicalises and misses the cache (the
  configured concurrency being positive), if the probe step yields zero accessible URLs
  then \<open>scrapeWebsite\<close> fails with \<open>InsufficientData\<close> (424); otherwise it returns, and
  caches, the result whose pages are the collapse of the pages that could be fetched,
  which may be none. Individual probe or fetch failures only drop their URL.
\<close>

theorem C3_scrapeWebsite_fail_semantics:
  assumes "0 < concurrency env"
    and "sanitizeUrl (parse_of env) u = Inr sanitized"
    and "getScrapedContent (faults_of env) (hash_of env) (scrapingTTL env) (clock env) st sanitized
           = (None, st1)"
  shows "(validateUrls (head_of env) (discoverPages (parse_of env) sanitized) = [] \<longrightarrow>
            (\<exists>e. scrapeWebsite env st u = Some (Inl (App e), st1)
               \<and> errorHandler (App e) = (424, ''INSUFFICIENT_DATA'')))
       \<and> (validateUrls (head_of env) (discoverPages (parse_of env) sanitized) \<noteq> [] \<longrightarrow>
            (\<exists>result. scrapeWebsite env st u
                 = Some (Inr result,
                         cacheScrapedContent (faults_of env) (hash_of env) (scrapingTTL env)
                           (clock env) st1 sanitized result None)
               \<and> pages result = deduplicateContent
                   (List.map_filter (scrapePage env)
                      (validateUrls (head_of env) (discoverPages (parse_of env) sanitized)))))"
proof -
  let ?valid = "validateUrls (head_of env) (discoverPages (parse_of env) sanitized)"
  have sw: "scrapeWebsite env st u = fresh_scrape env st1 sanitized"
    using assms(2,3) by (simp add: scrapeWebsite_def)
  have none: "\<exists>e. scrapeWebsite env st u = Some (Inl (App e), st1)
               \<and> errorHandler (App e) = (424, ''INSUFFICIENT_DATA'')" if "?valid = []"
    using that
    by (simp add: sw fresh_scrape_def Let_def errorHandler_def InsufficientDataError_def AppError_def)
  have some: "\<exists>result. scrapeWebsite env st u
                 = Some (Inr result,
                         cacheScrapedContent (faults_of env) (hash_of env) (scrapingTTL env)
                           (clock env) st1 sanitized result None)
               \<and> pages result = deduplicateContent (List.map_filter (scrapePage env) ?valid)"
    if "?valid \<noteq> []"
    using that assms(1)
    by (simp add: sw fresh_scrape_def Let_def scrapePages_total)
  from none some show ?thesis by blast
qed

theorem C3_scrapeWebsite_fail_semantics_witness:
  "map_option (map_sum id (map (\<lambda>p. (page_url p, content p)) \<circ> pages) \<circ> fst)
       (scrapeWebsite env_some_failures empty_cache ''https://example.com/about#team'')
     = Some (Inr [(''https://example.com/about'', ''About us'')])
   \<and> map_option (map_sum errorHandler id \<circ> fst)
       (scrapeWebsite env_no_probe empty_cache ''https://example.com/about#team'')
     = Some (Inl (424, ''INSUFFICIENT_DATA''))"
proof -
  have san: "sanitizeUrl parse_example ''https://example.com/about#team'' = Inr ''https://example.com/about''"
    by (simp add: sanitizeUrl_def parse_example_def https_url_def protocol_def href_def)
  have miss: "getScrapedContent no_faults hash_example 86400 1000 empty_cache ''https://example.com/about''
      = (None, empty_cache)"
    by (simp add: getScrapedContent_def getScrapedContent_try_def redis_get_def getCachedScraping_def
        no_faults_def empty_cache_def)
  have disc: "discoverPages parse_example ''https://example.com/about''
      = map (\<lambda>p. ''https://example.com'' @ p) commonPaths"
    by (simp add: discoverPages_def extractDomain_def parse_example_def https_url_def strip_www_def
        set_order_def commonPaths_def Let_def)
  have valid: "validateUrls head_some (discoverPages parse_example ''https://example.com/about'')
      = [''https://example.com/'', ''https://example.com/about'']"
    by (simp add: disc commonPaths_def validateUrls_def head_some_def map_filter_simps)
  have fetched: "List.map_filter (scrapePage env_some_failures)
        [''https://example.com/'', ''https://example.com/about'']
      = [\<lparr>page_url = ''https://example.com/about'', title = ''About'', content = ''About us'',
           scrapedAt = 1000\<rparr>]"
    by (simp add: map_filter_simps scrapePage_def env_some_failures_def load_some_def trim_def
        isSpace_def)
  have f1: "parse_of env_some_failures = parse_example" "hash_of env_some_failures = hash_example"
      "head_of env_some_failures = head_some" "clock env_some_failures = 1000"
      "faults_of env_some_failures = no_faults" "scrapingTTL env_some_failures = 86400"
      "0 < concurrency env_some_failures"
    by (simp_all add: env_some_failures_def)
  have f2: "parse_of env_no_probe = parse_example" "hash_of env_no_probe = hash_example"
      "head_of env_no_probe = head_none" "clock env_no_probe = 1000"
      "faults_of env_no_probe = no_faults" "scrapingTTL env_no_probe = 86400"
      "0 < concurrency env_no_probe"
    by (simp_all add: env_no_probe_def)
  note nonempty = C3_scrapeWebsite_fail_semantics [of env_some_failures
      "''https://example.com/about#team''" "''https://example.com/about''" empty_cache empty_cache,
      unfolded f1(1-6), OF f1(7) san miss, unfolded valid fetched]
  from nonempty
  have "\<exists>result. scrapeWebsite env_some_failures empty_cache ''https://example.com/about#team''
          = Some (Inr result,
                  cacheScrapedContent no_faults hash_example 86400 1000 empty_cache
                    ''https://example.com/about'' result None)
        \<and> pages result = deduplicateContent
             [\<lparr>page_url = ''https://example.com/about'', title = ''About'', content = ''About us'',
                scrapedAt = 1000\<rparr>]"
    by simp
  then have first: "map_option (map_sum id (map (\<lambda>p. (page_url p, content p)) \<circ> pages) \<circ> fst)
       (scrapeWebsite env_some_failures empty_cache ''https://example.com/about#team'')
     = Some (Inr [(''https://example.com/about'', ''About us'')])"
    by (auto simp: deduplicateContent_def)
  note empty = C3_scrapeWebsite_fail_semantics [of env_no_probe
      "''https://example.com/about#team''" "''https://example.com/about''" empty_cache empty_cache,
      unfolded f2(1-6), OF f2(7) san miss, unfolded validateUrls_head_none]
  from empty
  have "\<exists>e. scrapeWebsite env_no_probe empty_cache ''https://example.com/about#team''
          = Some (Inl (App e), empty_cache)
        \<and> errorHandler (App e) = (424, ''INSUFFICIENT_DATA'')"
    by simp
  then have second: "map_option (map_sum errorHandler id \<circ> fst)
       (scrapeWebsite env_no_probe empty_cache ''https://example.com/about#team'')
     = Some (Inl (424, ''INSUFFICIENT_DATA''))"
    by auto
  from first second show ?thesis by blast
qed

subsection \<open>C10: failures during a cache lookup\<close>

lemma redis_get_fault: "fast_get_fails faults \<Longrightarrow> redis_get faults now st key = None"
  by (simp add: redis_get_def)

lemma getCachedScraping_fast_irrelevant:
  "fst (getCachedScraping (faults\<lparr>fast_get_fails := b\<rparr>) hash now (st\<lparr>fast_tier := m\<rparr>) u)
     = fst (getCachedScraping faults hash now st u)"
  by (simp add: getCachedScraping_def split: option.splits)

text \<open>
  C10 (as stated in the specification, refuted): the fast-tier read fails (the stored
  string does not parse, say) while the durable tier holds the entry and the backfill
  succeeds. The failure is absorbed inside \<open>redis.get\<close>, the lookup falls back to the
  durable tier and returns its entry, not null.
\<close>

theorem C10_fast_read_failure_counterexample:
  "fast_get_fails fast_read_fails
   \<and> fst (getScrapedContent fast_read_fails hash_example 86400 1000
            durable_only ''https://example.com/about'') = Some about_result"
  by (simp add: getScrapedContent_def getScrapedContent_try_def redis_get_def getCachedScraping_def
      redis_set_def fast_read_fails_def durable_only_def hash_example_def)

text \<open>
  C10 (amended): for every URL, whatever is thrown in the lookup's try block is caught
  and the lookup returns null: that is what happens when the durable-tier read throws
  and when the backfill of the fast tier throws. A failure of the fast-tier read is
  absorbed by the fast-tier wrapper and counts as a fast-tier miss, so that the lookup
  falls back to the durable tier and answers as if the fast tier were empty. When the
  lookup returns null, the scraper goes on to a fresh scrape.
\<close>

theorem C10_getScrapedContent_failures:
  "(\<forall>e st1. getScrapedContent_try faults hash ttl now st u = (Inl e, st1) \<longrightarrow>
        getScrapedContent faults hash ttl now st u = (None, st1))
   \<and> (redis_get faults now st (''scrape:'' @ hash u) = None \<and> durable_get_fails faults \<longrightarrow>
        getScrapedContent faults hash ttl now st u = (None, st))
   \<and> (redis_get faults now st (''scrape:'' @ hash u) = None
        \<and> (\<exists>d. fst (getCachedScraping faults hash now st u) = Inr (Some d))
        \<and> fast_set_fails faults \<longrightarrow>
        fst (getScrapedContent faults hash ttl now st u) = None)
   \<and> (fast_get_fails faults \<longrightarrow>
        fst (getScrapedContent faults hash ttl now st u)
          = fst (getScrapedContent (faults\<lparr>fast_get_fails := False\<rparr>) hash ttl now
                   (st\<lparr>fast_tier := Map.empty\<rparr>) u))
   \<and> (\<forall>env cache sanitized cache1 raw.
         sanitizeUrl (parse_of env) raw = Inr sanitized
         \<and> getScrapedContent (faults_of env) (hash_of env) (scrapingTTL env) (clock env) cache sanitized
             = (None, cache1) \<longrightarrow>
         scrapeWebsite env cache raw = fresh_scrape env cache1 sanitized)"
proof (intro conjI allI impI)
  fix e st1
  assume "getScrapedContent_try faults hash ttl now st u = (Inl e, st1)"
  then show "getScrapedContent faults hash ttl now st u = (None, st1)"
    by (simp add: getScrapedContent_def)
next
  assume "redis_get faults now st (''scrape:'' @ hash u) = None \<and> durable_get_fails faults"
  then show "getScrapedContent faults hash ttl now st u = (None, st)"
    by (simp add: getScrapedContent_def getScrapedContent_try_def getCachedScraping_def)
next
  assume a: "redis_get faults now st (''scrape:'' @ hash u) = None
      \<and> (\<exists>d. fst (getCachedScraping faults hash now st u) = Inr (Some d))
      \<and> fast_set_fails faults"
  then obtain d st1 where "getCachedScraping faults hash now st u = (Inr (Some d), st1)"
    by (metis fst_conv surj_pair)
  with a show "fst (getScrapedContent faults hash ttl now st u) = None"
    by (simp add: getScrapedContent_def getScrapedContent_try_def redis_set_def)
next
  assume f: "fast_get_fails faults"
  let ?faults' = "faults\<lparr>fast_get_fails := False\<rparr>"
  let ?st' = "st\<lparr>fast_tier := Map.empty\<rparr>"
  have miss: "redis_get faults now st key = None" for key
    using f by (rule redis_get_fault)
  have miss': "redis_get ?faults' now ?st' key = None" for key
    by (simp add: redis_get_def)
  obtain r st1 where d: "getCachedScraping faults hash now st u = (r, st1)"
    by (metis surj_pair)
  obtain r' st1' where d': "getCachedScraping ?faults' hash now ?st' u = (r', st1')"
    by (metis surj_pair)
  have same: "r' = r"
    using getCachedScraping_fast_irrelevant [where faults = faults and b = False and hash = hash
        and now = now and st = st and m = Map.empty and u = u] d d'
    by simp
  show "fst (getScrapedContent faults hash ttl now st u)
          = fst (getScrapedContent ?faults' hash ttl now ?st' u)"
    by (simp add: getScrapedContent_def getScrapedContent_try_def Let_def miss miss' d d' same
        redis_set_def split: sum.splits option.splits)
next
  fix env :: scrape_env and cache sanitized cache1 raw
  assume "sanitizeUrl (parse_of env) raw = Inr sanitized
         \<and> getScrapedContent (faults_of env) (hash_of env) (scrapingTTL env) (clock env) cache sanitized
             = (None, cache1)"
  then show "scrapeWebsite env cache raw = fresh_scrape env cache1 sanitized"
    by (simp add: scrapeWebsite_def)
qed

theorem C10_getScrapedContent_failures_witness:
  "getScrapedContent (no_faults\<lparr>durable_get_fails := True\<rparr>) hash_example 86400 1000 durable_only
       ''https://example.com/about'' = (None, durable_only)
   \<and> fst (getScrapedContent (no_faults\<lparr>fast_set_fails := True\<rparr>) hash_example 86400 1000 durable_only
       ''https://example.com/about'') = None
   \<and> fst (getScrapedContent (no_faults\<lparr>fast_get_fails := True\<rparr>) hash_example 86400 1000 durable_only
       ''https://example.com/about'')
     = fst (getScrapedContent no_faults hash_example 86400 1000 (durable_only\<lparr>fast_tier := Map.empty\<rparr>)
       ''https://example.com/about'')"
proof -
  have miss: "redis_get faults 1000 durable_only (''scrape:'' @ hash_example ''https://example.com/about'') = None"
    for faults
    by (simp add: redis_get_def durable_only_def)
  have hit: "fst (getCachedScraping (no_faults\<lparr>fast_set_fails := True\<rparr>) hash_example 1000 durable_only
      ''https://example.com/about'') = Inr (Some about_result)"
    by (simp add: getCachedScraping_def no_faults_def durable_only_def hash_example_def)
  have upd: "(no_faults\<lparr>fast_get_fails := True\<rparr>)\<lparr>fast_get_fails := False\<rparr> = no_faults"
    by (simp add: no_faults_def)
  from C10_getScrapedContent_failures [of "no_faults\<lparr>durable_get_fails := True\<rparr>" hash_example
      86400 1000 durable_only "''https://example.com/about''"] miss
  have first: "getScrapedContent (no_faults\<lparr>durable_get_fails := True\<rparr>) hash_example 86400 1000
      durable_only ''https://example.com/about'' = (None, durable_only)"
    by (simp add: no_faults_def)
  from C10_getScrapedContent_failures [of "no_faults\<lparr>fast_set_fails := True\<rparr>" hash_example
      86400 1000 durable_only "''https://example.com/about''"] miss hit
  have second: "fst (getScrapedContent (no_faults\<lparr>fast_set_fails := True\<rparr>) hash_example 86400 1000
      durable_only ''https://example.com/about'') = None"
    by (simp add: no_faults_def)
  from C10_getScrapedContent_failures [of "no_faults\<lparr>fast_get_fails := True\<rparr>" hash_example
      86400 1000 durable_only "''https://example.com/about''"]
  have third: "fst (getScrapedContent (no_faults\<lparr>fast_get_fails := True\<rparr>) hash_example 86400 1000
        durable_only ''https://example.com/about'')
     = fst (getScrapedContent no_faults hash_example 86400 1000 (durable_only\<lparr>fast_tier := Map.empty\<rparr>)
        ''https://example.com/about'')"
    by (simp add: upd)
  from first second third show ?thesis by blast
qed

subsection \<open>The key column and the identifiers of the program\<close>

lemma run_prefix_not_uuid: "\<not> is_uuid (''run_'' @ rest)"
  by (simp add: is_uuid_def is_hex_digit_def)


lemma valid_run_id_not_uuid:
  "valid_run_id runId \<Longrightarrow> uuid_in runId = Inl (Other (''invalid input syntax for type uuid: '' @ runId))"
proof -
  assume "valid_run_id runId"
  then have "take 4 runId = ''run_''"
    by (simp add: valid_run_id_def)
  then have "runId = ''run_'' @ drop 4 runId"
    by (metis append_take_drop_id)
  then have "\<not> is_uuid runId"
    by (metis run_prefix_not_uuid)
  then show ?thesis
    by (simp add: uuid_in_def)
qed


lemma storage_getRun_schema_valid_fails:
  "valid_run_id runId \<Longrightarrow>
     storage_getRun st runId b = Inl (Other (''invalid input syntax for type uuid: '' @ runId))"
  by (simp add: storage_getRun_def getRun_def valid_run_id_not_uuid)

lemma uuid_in_example: "uuid_in uuid_example = Inr uuid_example"
  by code_simp

subsection \<open>C1: reads of a run past its deadline\<close>

text \<open>
  C1 at a failing input: a run whose status is active and whose deadline (100) has
  passed at the time of the read (200) is returned by \<open>getRun\<close>, which does not look at
  the clock, and by \<open>StorageService.getRun\<close>; the sibling \<open>getActiveRunsCount\<close> does not
  count it.
\<close>

theorem C1_expired_run_is_returned:
  "getRun [run_example uuid_example 100] uuid_example = Inr (Some (run_example uuid_example 100))
   \<and> storage_getRun [run_example uuid_example 100] uuid_example True
       = Inr (Some (run_example uuid_example 100))
   \<and> run_state (run_example uuid_example 100) = active
   \<and> expires_at (run_example uuid_example 100) < 200
   \<and> getActiveRunsCount 200 [run_example uuid_example 100] = 0"
  by (simp add: getRun_def storage_getRun_def getActiveRunsCount_def run_example_def
      uuid_in_example)

subsection \<open>C5: the confidence gate of the brand summary\<close>



subsection \<open>C6: the phase gate\<close>

lemma kernel_route_schema_valid:
  "valid_run_id runId \<Longrightarrow>
     kernel_route sv st runId
       = (Inl (Other (''invalid input syntax for type uuid: '' @ runId)), st)"
  by (simp add: kernel_route_def validate_def validateKernel_def storage_getRun_schema_valid_fails)

lemma competitors_route_schema_valid:
  "validateCompetitors brand_domain runId \<Longrightarrow>
     competitors_route sv st brand_domain runId
       = (Inl (Other (''invalid input syntax for type uuid: '' @ runId)), st)"
  by (simp add: competitors_route_def validate_def validateCompetitors_def
      storage_getRun_schema_valid_fails)

lemma competitors_analyze_route_schema_valid:
  "validateCompetitorsAnalyze runId domains \<Longrightarrow>
     competitors_analyze_route sv st runId domains
       = (Inl (Other (''invalid input syntax for type uuid: '' @ runId)), st)"
  by (simp add: competitors_analyze_route_def validate_def validateCompetitorsAnalyze_def
      storage_getRun_schema_valid_fails)

lemma kernel_route_schema_invalid:
  "\<not> valid_run_id runId \<Longrightarrow>
     kernel_route sv st runId
       = (Inl (App (ValidationError ''Kernel Request validation failed'' SchemaErrors)), st)"
  by (simp add: kernel_route_def validate_def validateKernel_def)

text \<open>
  C6 at failing inputs: the Kernel phase invoked with the unknown identifier
  \<open>run_fake-id\<close> is answered with 400 \<open>VALIDATION_ERROR\<close>, because the identifier does
  not match the pattern of the request schema; and each non-initial phase invoked with an
  unknown identifier that does match the pattern is answered with 500 \<open>INTERNAL_ERROR\<close>,
  because the store's query fails on an identifier that is not a UUID. In neither case
  is the answer 424 \<open>UPSTREAM_ARTIFACT_MISSING\<close>; the store is left as it was.
\<close>

theorem C6_unknown_run_id_not_424:
  "map_prod (map_sum errorHandler kernel_run_id) id
       (kernel_route (services_example 0.9 []) [run_example uuid_example 5000] ''run_fake-id'')
     = (Inl (400, ''VALIDATION_ERROR''), [run_example uuid_example 5000])
   \<and> map_prod (map_sum errorHandler kernel_run_id) id
       (kernel_route (services_example 0.9 []) [run_example uuid_example 5000]
          ''run_3f2504e0-4f89-41d3-9a0c-0305e82c3301'')
     = (Inl (500, ''INTERNAL_ERROR''), [run_example uuid_example 5000])
   \<and> map_prod (map_sum errorHandler competitors_run_id) id
       (competitors_route (services_example 0.9 []) [run_example uuid_example 5000] ''example.com''
          ''run_3f2504e0-4f89-41d3-9a0c-0305e82c3301'')
     = (Inl (500, ''INTERNAL_ERROR''), [run_example uuid_example 5000])
   \<and> map_prod (map_sum errorHandler analyze_run_id) id
       (competitors_analyze_route (services_example 0.9 []) [run_example uuid_example 5000]
          ''run_3f2504e0-4f89-41d3-9a0c-0305e82c3301'' [''example.com''])
     = (Inl (500, ''INTERNAL_ERROR''), [run_example uuid_example 5000])"
proof -
  have bad: "\<not> valid_run_id ''run_fake-id''"
    by (simp add: valid_run_id_def is_run_id_char_def)
  have good: "valid_run_id ''run_3f2504e0-4f89-41d3-9a0c-0305e82c3301''"
    by (simp add: valid_run_id_def is_run_id_char_def)
  have v1: "validateCompetitors ''example.com'' ''run_3f2504e0-4f89-41d3-9a0c-0305e82c3301''"
    and v2: "validateCompetitorsAnalyze ''run_3f2504e0-4f89-41d3-9a0c-0305e82c3301'' [''example.com'']"
    using good by (simp_all add: validateCompetitors_def validateCompetitorsAnalyze_def)
  show ?thesis
    by (simp add: kernel_route_schema_invalid [OF bad] kernel_route_schema_valid [OF good]
        competitors_route_schema_valid [OF v1] competitors_analyze_route_schema_valid [OF v2]
        errorHandler_def ValidationError_def AppError_def)
qed

end
